theory Spec2Isabelle
  imports Main "HOL-Library.Sublist" "HOL-Library.Char_ord" "HOL-Library.List_Lexorder"
begin

section \<open>BAR: backup and restore of the OBS configuration directory\<close>

text \<open>
  A shallow embedding of \<^verbatim>\<open>src/BAR.py\<close>. Python \<^verbatim>\<open>str\<close> and \<^verbatim>\<open>bytes\<close> are both
  modelled as \<open>string\<close> (a list of 8-bit characters). A \<^verbatim>\<open>pathlib.Path\<close> is the list of
  its components below the filesystem root; every path is taken as absolute. The
  filesystem is a tree of regular files and directories (no symbolic links, no
  permissions); a directory is the list of its entries in the order the operating
  system lists them.
\<close>

subsection \<open>Strings and paths\<close>

type_synonym bytes = string
type_synonym path = "string list"

definition startswith :: "string \<Rightarrow> string \<Rightarrow> bool" where
  "startswith s p = prefix p s"

definition endswith :: "string \<Rightarrow> string \<Rightarrow> bool" where
  "endswith s p = suffix p s"

definition is_slash :: "char \<Rightarrow> bool" where
  "is_slash c = (c = CHR ''/'')"

text \<open>\<^verbatim>\<open>s.lstrip("/")\<close>, \<^verbatim>\<open>s.rstrip("/")\<close> and \<^verbatim>\<open>s.strip("/")\<close>.\<close>

definition lstrip_slash :: "string \<Rightarrow> string" where
  "lstrip_slash s = dropWhile is_slash s"

definition rstrip_slash :: "string \<Rightarrow> string" where
  "rstrip_slash s = rev (dropWhile is_slash (rev s))"

definition strip_slash :: "string \<Rightarrow> string" where
  "strip_slash s = rstrip_slash (lstrip_slash s)"

text \<open>\<^verbatim>\<open>"/".join(segs)\<close>; also \<^verbatim>\<open>as_posix()\<close> of a relative path with these components
  (the empty relative path prints as a dot).\<close>

fun join_slash :: "string list \<Rightarrow> string" where
  "join_slash [] = []"
| "join_slash [s] = s"
| "join_slash (s # t # ts) = s @ ''/'' @ join_slash (t # ts)"

definition as_posix :: "path \<Rightarrow> string" where
  "as_posix comps = (if comps = [] then ''.'' else join_slash comps)"

text \<open>\<^verbatim>\<open>s.split("/")\<close>.\<close>

fun split_slash :: "string \<Rightarrow> string list" where
  "split_slash [] = [[]]"
| "split_slash (c # cs) =
     (if is_slash c then [] # split_slash cs
      else (case split_slash cs of
              [] \<Rightarrow> [[c]]
            | w # ws \<Rightarrow> (c # w) # ws))"

text \<open>\<^verbatim>\<open>Path(s)\<close> on a POSIX flavour: empty components and single dots are dropped.\<close>

definition Path :: "string \<Rightarrow> path" where
  "Path s = filter (\<lambda>c. c \<noteq> [] \<and> c \<noteq> ''.'') (split_slash s)"

subsection \<open>The filesystem\<close>

datatype node = File bytes | Dir "(string \<times> node) list"

fun lookup :: "node \<Rightarrow> path \<Rightarrow> node option" where
  "lookup t [] = Some t"
| "lookup (File _) (_ # _) = None"
| "lookup (Dir es) (c # cs) =
     (case map_of es c of None \<Rightarrow> None | Some t \<Rightarrow> lookup t cs)"

definition exists :: "node \<Rightarrow> path \<Rightarrow> bool" where
  "exists fs p = (lookup fs p \<noteq> None)"

definition is_dir :: "node \<Rightarrow> path \<Rightarrow> bool" where
  "is_dir fs p = (case lookup fs p of Some (Dir _) \<Rightarrow> True | _ \<Rightarrow> False)"

definition is_file :: "node \<Rightarrow> path \<Rightarrow> bool" where
  "is_file fs p = (case lookup fs p of Some (File _) \<Rightarrow> True | _ \<Rightarrow> False)"

subsection \<open>Errors\<close>

text \<open>
  The Python exceptions the code raises or lets through. \<^verbatim>\<open>RuntimeError\<close> and
  \<^verbatim>\<open>FileNotFoundError\<close> are the two the code raises itself, with the message it gives
  them (\<^verbatim>\<open>Path.home()\<close> raises the first as well). \<open>OSError\<close> is the error of a filesystem
  call, with its error number: in Python \<^verbatim>\<open>FileNotFoundError\<close>, \<^verbatim>\<open>FileExistsError\<close>,
  \<^verbatim>\<open>NotADirectoryError\<close> or \<^verbatim>\<open>IsADirectoryError\<close>. The others come from the interpreter,
  the decoders and the network layer; the string they carry tells them apart and is not
  the text Python prints for them.
\<close>

datatype errno = ENOENT | EEXIST | ENOTDIR | EISDIR

datatype exn =
    RuntimeError string
  | FileNotFoundError string
  | OSError errno
  | TypeError string
  | AttributeError string
  | ValueError string
  | URLError string

subsection \<open>The configuration-root locator\<close>

text \<open>
  What the code reads from its host: \<^verbatim>\<open>sys.platform\<close>, \<^verbatim>\<open>os.environ\<close>, the home directory
  (none when it cannot be determined), \<^verbatim>\<open>platform.node()\<close>, the local time as
  \<^verbatim>\<open>now_stamp\<close> formats it, and the two texts the interpreter and the platform decide:
  \<^verbatim>\<open>str(e)\<close> of an exception the code did not raise itself, and \<^verbatim>\<open>str(p)\<close> of a path.
\<close>

record env =
  platform :: string
  environ :: "string \<Rightarrow> string option"
  home :: "string option"
  node_name :: string
  clock :: string
  lib_text :: "exn \<Rightarrow> string"
  path_text :: "path \<Rightarrow> string"

text \<open>\<^verbatim>\<open>Path.home()\<close>: \<^verbatim>\<open>pathlib\<close> raises \<^verbatim>\<open>RuntimeError\<close> when no home directory can be
  determined.\<close>

definition Path_home :: "env \<Rightarrow> exn + path" where
  "Path_home e =
     (case home e of
        None \<Rightarrow> Inl (RuntimeError ''Could not determine home directory.'')
      | Some h \<Rightarrow> Inr (Path h))"

text \<open>\<^verbatim>\<open>get_obs_config_dir\<close>. An environment variable that is unset or empty is falsy.\<close>

definition get_obs_config_dir :: "env \<Rightarrow> exn + path" where
  "get_obs_config_dir e =
     (if startswith (platform e) ''win'' then
        (case environ e ''APPDATA'' of
           None \<Rightarrow> Inl (RuntimeError ''APPDATA not set; cannot locate OBS config'')
         | Some appdata \<Rightarrow>
             if appdata = [] then Inl (RuntimeError ''APPDATA not set; cannot locate OBS config'')
             else Inr (Path appdata @ [''obs-studio'']))
      else if platform e = ''darwin'' then
        (case Path_home e of
           Inl x \<Rightarrow> Inl x
         | Inr h \<Rightarrow> Inr (h @ [''Library'', ''Application Support'', ''obs-studio'']))
      else
        (case environ e ''XDG_CONFIG_HOME'' of
           Some (c # cs) \<Rightarrow> Inr (Path (c # cs) @ [''obs-studio''])
         | _ \<Rightarrow>
             (case Path_home e of
                Inl x \<Rightarrow> Inl x
              | Inr h \<Rightarrow> Inr (h @ [''.config'', ''obs-studio'']))))"

subsection \<open>The file-tree walker\<close>

text \<open>\<^verbatim>\<open>_excluded_dirs\<close>.\<close>

definition excluded_dirs :: "bool \<Rightarrow> bool \<Rightarrow> string set" where
  "excluded_dirs include_logs include_cache =
     (let excludes = {''crashes'', ''plugin_config/cef_cache'', ''cache''};
          excludes = (if \<not> include_logs then insert ''logs'' excludes else excludes);
          excludes = (if include_cache
                      then (excludes - {''cache''}) - {''plugin_config/cef_cache''}
                      else excludes)
      in excludes)"

text \<open>The test of the inner loop of \<^verbatim>\<open>iter_obs_files\<close> on a directory named \<open>d\<close> whose
  path relative to the configuration root prints as \<open>rel\<close>.\<close>

definition dir_excluded :: "string set \<Rightarrow> string \<Rightarrow> string \<Rightarrow> bool" where
  "dir_excluded excludes rel d =
     (\<exists>ex\<in>excludes. rel = ex \<or> startswith rel (rstrip_slash ex @ ''/'') \<or> d = ex)"

definition dir_pruned :: "string set \<Rightarrow> path \<Rightarrow> string \<Rightarrow> bool" where
  "dir_pruned excludes root d =
     (startswith d ''.'' \<or> dir_excluded excludes (as_posix (root @ [d])) d)"

definition file_skipped :: "string \<Rightarrow> bool" where
  "file_skipped f = (endswith f ''.tmp'' \<or> endswith f ''.lock'')"

text \<open>
  The loop over \<^verbatim>\<open>os.walk(str(cfg))\<close>, top-down: the files of a directory are yielded
  first, then the directories that were not pruned are walked in listing order.
  \<open>root\<close> is the path of the directory being visited, relative to \<open>cfg\<close>. Each
  yielded pair is the relative path as a POSIX string and the absolute path of the file.
  Names within one directory are distinct, so removing every pruned name from \<^verbatim>\<open>dirs\<close>
  is a filter. Walking something that is not a directory yields nothing.
\<close>

fun walk :: "string set \<Rightarrow> path \<Rightarrow> path \<Rightarrow> node \<Rightarrow> (string \<times> path) list" where
  "walk excludes cfg root (File _) = []"
| "walk excludes cfg root (Dir es) =
     concat (map (\<lambda>(f, t). case t of
                    File _ \<Rightarrow> if file_skipped f then [] else [(as_posix (root @ [f]), cfg @ root @ [f])]
                  | Dir _ \<Rightarrow> []) es)
     @ concat (map (\<lambda>(d, t). case t of
                    File _ \<Rightarrow> []
                  | Dir _ \<Rightarrow> if dir_pruned excludes root d then []
                             else walk excludes cfg (root @ [d]) t) es)"

declare walk.simps [simp del]

text \<open>\<^verbatim>\<open>iter_obs_files\<close>, run to the end.\<close>

definition iter_obs_files :: "env \<Rightarrow> node \<Rightarrow> bool \<Rightarrow> bool \<Rightarrow> exn + (string \<times> path) list" where
  "iter_obs_files e fs include_logs include_cache =
     (case get_obs_config_dir e of
        Inl x \<Rightarrow> Inl x
      | Inr cfg \<Rightarrow>
          (case lookup fs cfg of
             None \<Rightarrow> Inl (FileNotFoundError (''OBS config not found at '' @ path_text e cfg))
           | Some t \<Rightarrow> Inr (walk (excluded_dirs include_logs include_cache) cfg [] t)))"


subsection \<open>The remote client\<close>

text \<open>Decoded JSON values (numbers as integers).\<close>

datatype json =
    JNull
  | JBool bool
  | JNum int
  | JStr string
  | JArr "json list"
  | JObj "(string \<times> json) list"

text \<open>Python truthiness of a decoded value.\<close>

fun truthy :: "json \<Rightarrow> bool" where
  "truthy JNull = False"
| "truthy (JBool b) = b"
| "truthy (JNum n) = (n \<noteq> 0)"
| "truthy (JStr s) = (s \<noteq> [])"
| "truthy (JArr xs) = (xs \<noteq> [])"
| "truthy (JObj kvs) = (kvs \<noteq> [])"

text \<open>\<^verbatim>\<open>it.get(key, default)\<close>: only a dictionary has the method.\<close>

fun py_get :: "json \<Rightarrow> string \<Rightarrow> json \<Rightarrow> exn + json" where
  "py_get (JObj kvs) key dflt = Inr (case map_of kvs key of None \<Rightarrow> dflt | Some v \<Rightarrow> v)"
| "py_get _ key dflt = Inl (AttributeError ''object has no attribute get'')"

text \<open>Iterating a decoded value, as \<^verbatim>\<open>list.extend\<close> does: a list gives its elements, a
  dictionary its keys, a string its characters; other values are not iterable.\<close>

fun py_iter :: "json \<Rightarrow> exn + json list" where
  "py_iter (JArr xs) = Inr xs"
| "py_iter (JObj kvs) = Inr (map (\<lambda>(k, v). JStr k) kvs)"
| "py_iter (JStr s) = Inr (map (\<lambda>c. JStr [c]) s)"
| "py_iter _ = Inl (TypeError ''object is not iterable'')"

text \<open>Decimal digits of a number, for the status code in a message.\<close>

fun str_nat :: "nat \<Rightarrow> string" where
  "str_nat n = (if n < 10 then [char_of (48 + n)] else str_nat (n div 10) @ [char_of (48 + n mod 10)])"

declare str_nat.simps [simp del]

text \<open>
  What \<^verbatim>\<open>json.loads(urlopen(req).read().decode("utf-8"))\<close> comes to: the decoded body of
  a 2xx response, an \<^verbatim>\<open>HTTPError\<close> with its status code and the detail read from it, or
  any other exception (transport failure, timeout, undecodable body).
\<close>

datatype fetched = Body json | HTTPError nat string | Failed exn

text \<open>
  The remote service as the client sees it: the contents endpoint by repository, path
  and ref, and the pages of the user's repository list.
\<close>

record github =
  contents :: "string \<Rightarrow> string \<Rightarrow> string \<Rightarrow> fetched"
  user_repos :: "nat \<Rightarrow> fetched"
  put_contents :: "string \<Rightarrow> string \<Rightarrow> string \<Rightarrow> bytes \<Rightarrow> fetched"

definition branch_or_main :: "string \<Rightarrow> string" where
  "branch_or_main branch = (if branch = [] then ''main'' else branch)"

text \<open>\<^verbatim>\<open>GitHubClient.list_dir\<close>.\<close>

definition list_dir :: "github \<Rightarrow> string \<Rightarrow> string \<Rightarrow> string \<Rightarrow> exn + json list" where
  "list_dir gh owner_repo branch path_in_repo =
     (case contents gh owner_repo path_in_repo (branch_or_main branch) of
        Body data \<Rightarrow> (case data of JArr xs \<Rightarrow> Inr xs | _ \<Rightarrow> Inr [data])
      | HTTPError code detail \<Rightarrow>
          if code = 404 then Inr []
          else Inl (RuntimeError (''GitHub list failed: '' @ str_nat code @ '' '' @ detail))
      | Failed x \<Rightarrow> Inl x)"

text \<open>\<^verbatim>\<open>GitHubClient.get_file_content_b64\<close>; the second component of the result, the
  whole response, is never used by a caller and is left out.\<close>

definition get_file_content_b64 :: "github \<Rightarrow> string \<Rightarrow> string \<Rightarrow> string \<Rightarrow> exn + json" where
  "get_file_content_b64 gh owner_repo branch path_in_repo =
     (case contents gh owner_repo path_in_repo (branch_or_main branch) of
        Body data \<Rightarrow>
          (case data of
             JObj kvs \<Rightarrow>
               if map_of kvs ''encoding'' = Some (JStr ''base64'')
               then Inr (case map_of kvs ''content'' of None \<Rightarrow> JStr [] | Some v \<Rightarrow> v)
               else Inl (RuntimeError ''Unexpected content response from GitHub'')
           | _ \<Rightarrow> Inl (RuntimeError ''Unexpected content response from GitHub''))
      | HTTPError code detail \<Rightarrow>
          Inl (RuntimeError (''GitHub download failed: '' @ str_nat code @ '' '' @ detail))
      | Failed x \<Rightarrow> Inl x)"

text \<open>\<^verbatim>\<open>GitHubClient.put_file\<close>; callers ignore the decoded response.\<close>

definition put_file :: "github \<Rightarrow> string \<Rightarrow> string \<Rightarrow> string \<Rightarrow> bytes \<Rightarrow> exn + unit" where
  "put_file gh owner_repo branch path_in_repo content_bytes =
     (case put_contents gh owner_repo path_in_repo (branch_or_main branch) content_bytes of
        Body data \<Rightarrow> Inr ()
      | HTTPError code detail \<Rightarrow>
          Inl (RuntimeError (''GitHub upload failed: '' @ str_nat code @ '' '' @ detail))
      | Failed x \<Rightarrow> Inl x)"

text \<open>
  \<^verbatim>\<open>GitHubClient.list_user_repos\<close>: the loop over the pages, from the repositories
  gathered so far and the next page number. It ends at the first falsy page; a service
  that never sends one keeps it running, which is the value \<open>None\<close>.
\<close>

partial_function (option) list_user_repos_from :: "github \<Rightarrow> json list \<Rightarrow> nat \<Rightarrow> (exn + json list) option" where
  "list_user_repos_from gh repos page =
     (case user_repos gh page of
        Body data \<Rightarrow>
          if \<not> truthy data then Some (Inr repos)
          else (case py_iter data of
                  Inl x \<Rightarrow> Some (Inl x)
                | Inr items \<Rightarrow> list_user_repos_from gh (repos @ items) (page + 1))
      | HTTPError code detail \<Rightarrow>
          Some (Inl (RuntimeError (''GitHub repo list failed: '' @ str_nat code @ '' '' @ detail)))
      | Failed x \<Rightarrow> Some (Inl x))"

declare list_user_repos_from.simps [code]

definition list_user_repos :: "github \<Rightarrow> (exn + json list) option" where
  "list_user_repos gh = list_user_repos_from gh [] 1"


text \<open>The argument of \<^verbatim>\<open>parse.quote(path_in_repo) if path_in_repo else ""\<close>: a falsy value
  stands for the repository root, a string for itself, and quoting anything else fails.\<close>

definition path_arg :: "json \<Rightarrow> exn + string" where
  "path_arg j =
     (if \<not> truthy j then Inr []
      else (case j of JStr s \<Rightarrow> Inr s | _ \<Rightarrow> Inl (TypeError ''quote_from_bytes() expected bytes'')))"

text \<open>\<^verbatim>\<open>value[n:]\<close> on the value of the \<^verbatim>\<open>path\<close> key. Only a string is sliced here; a list,
  which Python would slice too, fails a step later when it is joined to a path.\<close>

definition slice_from :: "json \<Rightarrow> nat \<Rightarrow> exn + string" where
  "slice_from j n =
     (case j of JStr s \<Rightarrow> Inr (drop n s) | _ \<Rightarrow> Inl (TypeError ''object is not subscriptable''))"

text \<open>In \<^verbatim>\<open>do_restore_remote\<close>: the remote root, and the relative path of a listed file.\<close>

definition remote_base :: "string \<Rightarrow> string" where
  "remote_base sel_path = rstrip_slash sel_path @ ''/obs-studio''"

definition remote_rel :: "string \<Rightarrow> json \<Rightarrow> exn + string" where
  "remote_rel base p = slice_from p (length (strip_slash base) + 1)"

text \<open>The body of the \<^verbatim>\<open>for it in items\<close> loop of \<^verbatim>\<open>_collect_pairs\<close>, threading the stack
  and the pairs; \<open>b64decode\<close> is \<^verbatim>\<open>base64.b64decode\<close>.\<close>

fun collect_items ::
  "github \<Rightarrow> (json \<Rightarrow> exn + bytes) \<Rightarrow> string \<Rightarrow> string \<Rightarrow> string \<Rightarrow> json list
     \<Rightarrow> json list \<Rightarrow> (string \<times> bytes) list \<Rightarrow> exn + (json list \<times> (string \<times> bytes) list)" where
  "collect_items gh b64decode repo branch base [] stack pairs = Inr (stack, pairs)"
| "collect_items gh b64decode repo branch base (it # items) stack pairs =
     (case py_get it ''type'' JNull of
        Inl x \<Rightarrow> Inl x
      | Inr t \<Rightarrow>
          if t = JStr ''dir'' then
            (case py_get it ''path'' JNull of
               Inl x \<Rightarrow> Inl x
             | Inr p \<Rightarrow> collect_items gh b64decode repo branch base items (stack @ [p]) pairs)
          else if t = JStr ''file'' then
            (case py_get it ''path'' JNull of
               Inl x \<Rightarrow> Inl x
             | Inr p \<Rightarrow>
                 (case path_arg p of
                    Inl x \<Rightarrow> Inl x
                  | Inr ps \<Rightarrow>
                      (case get_file_content_b64 gh repo branch ps of
                         Inl x \<Rightarrow> Inl x
                       | Inr content_b64 \<Rightarrow>
                           (case b64decode content_b64 of
                              Inl x \<Rightarrow> Inl x
                            | Inr data \<Rightarrow>
                                (case py_get it ''path'' (JStr []) of
                                   Inl x \<Rightarrow> Inl x
                                 | Inr q \<Rightarrow>
                                     (case remote_rel base q of
                                        Inl x \<Rightarrow> Inl x
                                      | Inr rel \<Rightarrow>
                                          collect_items gh b64decode repo branch base items stack
                                            (pairs @ [(rel, data)])))))))
          else collect_items gh b64decode repo branch base items stack pairs)"

text \<open>The \<^verbatim>\<open>while stack\<close> loop of \<^verbatim>\<open>_collect_pairs\<close>: the last path pushed is listed next.
  A service whose listings never run out keeps it running.\<close>

partial_function (option) collect_pairs_from ::
  "github \<Rightarrow> (json \<Rightarrow> exn + bytes) \<Rightarrow> string \<Rightarrow> string \<Rightarrow> string
     \<Rightarrow> json list \<Rightarrow> (string \<times> bytes) list \<Rightarrow> (exn + (string \<times> bytes) list) option" where
  "collect_pairs_from gh b64decode repo branch base stack pairs =
     (if stack = [] then Some (Inr pairs)
      else (case path_arg (last stack) of
              Inl x \<Rightarrow> Some (Inl x)
            | Inr path \<Rightarrow>
                (case list_dir gh repo branch path of
                   Inl x \<Rightarrow> Some (Inl x)
                 | Inr items \<Rightarrow>
                     (case collect_items gh b64decode repo branch base items (butlast stack) pairs of
                        Inl x \<Rightarrow> Some (Inl x)
                      | Inr (stack', pairs') \<Rightarrow>
                          collect_pairs_from gh b64decode repo branch base stack' pairs'))))"

declare collect_pairs_from.simps [code]

definition collect_pairs ::
  "github \<Rightarrow> (json \<Rightarrow> exn + bytes) \<Rightarrow> string \<Rightarrow> string \<Rightarrow> string
     \<Rightarrow> (exn + (string \<times> bytes) list) option" where
  "collect_pairs gh b64decode repo branch base =
     collect_pairs_from gh b64decode repo branch base [JStr base] []"


subsection \<open>Filesystem operations\<close>

text \<open>
  The operations of \<^verbatim>\<open>pathlib\<close>, \<^verbatim>\<open>os\<close> and \<^verbatim>\<open>shutil\<close> that the code calls, on the tree.
  An operation that fails leaves the tree as it was. \<open>probe\<close> resolves a path as the
  operating system does, telling a missing component from a component that is a regular
  file. Components \<^verbatim>\<open>..\<close> are not resolved.
\<close>

fun probe :: "node \<Rightarrow> path \<Rightarrow> exn + node" where
  "probe t [] = Inr t"
| "probe (File _) (c # cs) = Inl (OSError ENOTDIR)"
| "probe (Dir es) (c # cs) =
     (case map_of es c of
        None \<Rightarrow> Inl (OSError ENOENT)
      | Some t \<Rightarrow> probe t cs)"

text \<open>Replace the first entry named \<open>c\<close>, or add the entry at the end of the listing.\<close>

fun update_entry :: "string \<Rightarrow> node \<Rightarrow> (string \<times> node) list \<Rightarrow> (string \<times> node) list" where
  "update_entry c t [] = [(c, t)]"
| "update_entry c t ((k, v) # es) =
     (if k = c then (c, t) # es else (k, v) # update_entry c t es)"

text \<open>Put a node at a path whose parent is an existing directory.\<close>

fun put :: "node \<Rightarrow> path \<Rightarrow> node \<Rightarrow> node option" where
  "put t [] new = Some new"
| "put (File _) (c # cs) new = None"
| "put (Dir es) (c # cs) new =
     (if cs = [] then Some (Dir (update_entry c new es))
      else (case map_of es c of
              None \<Rightarrow> None
            | Some sub \<Rightarrow>
                (case put sub cs new of
                   None \<Rightarrow> None
                 | Some sub' \<Rightarrow> Some (Dir (update_entry c sub' es)))))"

text \<open>Remove what is at a path, if anything.\<close>

fun delete :: "node \<Rightarrow> path \<Rightarrow> node" where
  "delete t [] = t"
| "delete (File b) (c # cs) = File b"
| "delete (Dir es) (c # cs) =
     (if cs = [] then Dir (filter (\<lambda>(k, v). k \<noteq> c) es)
      else (case map_of es c of
              None \<Rightarrow> Dir es
            | Some sub \<Rightarrow> Dir (update_entry c (delete sub cs) es)))"

text \<open>\<^verbatim>\<open>p.mkdir(parents=True, exist_ok=True)\<close>.\<close>

fun mkdir_p :: "node \<Rightarrow> path \<Rightarrow> exn + node" where
  "mkdir_p (File b) [] = Inl (OSError EEXIST)"
| "mkdir_p (Dir es) [] = Inr (Dir es)"
| "mkdir_p (File b) (c # cs) = Inl (OSError ENOTDIR)"
| "mkdir_p (Dir es) (c # cs) =
     (case map_of es c of
        None \<Rightarrow>
          (case mkdir_p (Dir []) cs of
             Inl x \<Rightarrow> Inl x
           | Inr t \<Rightarrow> Inr (Dir (update_entry c t es)))
      | Some sub \<Rightarrow>
          (case mkdir_p sub cs of
             Inl x \<Rightarrow> Inl x
           | Inr t \<Rightarrow> Inr (Dir (update_entry c t es))))"

text \<open>\<^verbatim>\<open>p.parent\<close>, \<^verbatim>\<open>p.name\<close> and \<^verbatim>\<open>ensure_parent\<close>.\<close>

definition parent :: "path \<Rightarrow> path" where
  "parent p = butlast p"

definition name_of :: "path \<Rightarrow> string" where
  "name_of p = (if p = [] then [] else last p)"

definition ensure_parent :: "node \<Rightarrow> path \<Rightarrow> exn + node" where
  "ensure_parent fs p = mkdir_p fs (parent p)"

text \<open>\<^verbatim>\<open>base / s\<close> for a string \<open>s\<close>: an absolute \<open>s\<close> replaces the base.\<close>

definition joinpath :: "path \<Rightarrow> string \<Rightarrow> path" where
  "joinpath base s = (if s \<noteq> [] \<and> is_slash (hd s) then Path s else base @ Path s)"

text \<open>\<^verbatim>\<open>open(p, "wb")\<close> followed by \<^verbatim>\<open>write(data)\<close>.\<close>

definition write_bytes :: "node \<Rightarrow> path \<Rightarrow> bytes \<Rightarrow> exn + node" where
  "write_bytes fs p data =
     (if p = [] then Inl (OSError EISDIR)
      else (case probe fs (parent p) of
              Inl x \<Rightarrow> Inl x
            | Inr (File _) \<Rightarrow> Inl (OSError ENOTDIR)
            | Inr (Dir _) \<Rightarrow>
                (case lookup fs p of
                   Some (Dir _) \<Rightarrow> Inl (OSError EISDIR)
                 | _ \<Rightarrow> (case put fs p (File data) of
                           None \<Rightarrow> Inl (OSError ENOENT)
                         | Some fs' \<Rightarrow> Inr fs'))))"

text \<open>\<^verbatim>\<open>open(p, "rb").read()\<close>.\<close>

definition read_bytes :: "node \<Rightarrow> path \<Rightarrow> exn + bytes" where
  "read_bytes fs p =
     (case probe fs p of
        Inl x \<Rightarrow> Inl x
      | Inr (Dir _) \<Rightarrow> Inl (OSError EISDIR)
      | Inr (File data) \<Rightarrow> Inr data)"

text \<open>\<^verbatim>\<open>shutil.copy2(src, dest)\<close>; the metadata it copies is not part of the tree.\<close>

definition copy2 :: "node \<Rightarrow> path \<Rightarrow> path \<Rightarrow> exn + node" where
  "copy2 fs src dest =
     (case read_bytes fs src of
        Inl x \<Rightarrow> Inl x
      | Inr data \<Rightarrow> write_bytes fs (if is_dir fs dest then dest @ [name_of src] else dest) data)"

text \<open>Place a tree at a path that does not exist yet, creating the directories above it:
  what \<^verbatim>\<open>shutil.copytree\<close> does at its destination.\<close>

definition place_tree :: "node \<Rightarrow> path \<Rightarrow> (string \<times> node) list \<Rightarrow> exn + node" where
  "place_tree fs dst es =
     (if exists fs dst then Inl (OSError EEXIST)
      else (case mkdir_p fs dst of
              Inl x \<Rightarrow> Inl x
            | Inr fs1 \<Rightarrow>
                (case put fs1 dst (Dir es) of
                   None \<Rightarrow> Inl (OSError ENOENT)
                 | Some fs2 \<Rightarrow> Inr fs2)))"

text \<open>\<^verbatim>\<open>shutil.copytree(src, dst)\<close>.\<close>

definition copytree :: "node \<Rightarrow> path \<Rightarrow> path \<Rightarrow> exn + node" where
  "copytree fs src dst =
     (case probe fs src of
        Inl x \<Rightarrow> Inl x
      | Inr (File _) \<Rightarrow> Inl (OSError ENOTDIR)
      | Inr (Dir es) \<Rightarrow> place_tree fs dst es)"

text \<open>\<^verbatim>\<open>shutil.rmtree(p, ignore_errors=True)\<close>, and \<^verbatim>\<open>p.unlink()\<close> with every exception
  passed over.\<close>

definition rmtree_ignore :: "node \<Rightarrow> path \<Rightarrow> node" where
  "rmtree_ignore fs p = (if is_dir fs p then delete fs p else fs)"

definition unlink_ignore :: "node \<Rightarrow> path \<Rightarrow> node" where
  "unlink_ignore fs p = (if is_file fs p then delete fs p else fs)"

text \<open>The test and removal that both restore loops make before they write to \<open>dest\<close>.\<close>

definition clear_dest :: "node \<Rightarrow> path \<Rightarrow> node" where
  "clear_dest fs dest =
     (if exists fs dest
      then (if is_dir fs dest then rmtree_ignore fs dest else unlink_ignore fs dest)
      else fs)"

text \<open>\<^verbatim>\<open>start.rglob("*")\<close> filtered by \<^verbatim>\<open>is_file\<close>: the files below a directory, each with its
  path relative to \<open>start\<close> as a POSIX string and its content. The entries of a directory
  come before those of its subdirectories. A start that is not a directory has none.\<close>

fun files_below :: "path \<Rightarrow> node \<Rightarrow> (string \<times> bytes) list" where
  "files_below rel (File _) = []"
| "files_below rel (Dir es) =
     concat (map (\<lambda>(f, t). case t of
                    File data \<Rightarrow> [(as_posix (rel @ [f]), data)]
                  | Dir _ \<Rightarrow> []) es)
     @ concat (map (\<lambda>(d, t). case t of
                    File _ \<Rightarrow> []
                  | Dir _ \<Rightarrow> files_below (rel @ [d]) t) es)"

declare files_below.simps [simp del]

definition rglob_files :: "node \<Rightarrow> path \<Rightarrow> (string \<times> bytes) list" where
  "rglob_files fs start = (case lookup fs start of None \<Rightarrow> [] | Some t \<Rightarrow> files_below [] t)"

text \<open>\<^verbatim>\<open>folder.glob("*/obs-studio")\<close>: the subdirectories of \<open>folder\<close>, in listing order, that
  hold something named \<^verbatim>\<open>obs-studio\<close>.\<close>

definition glob_star_obs :: "node \<Rightarrow> path \<Rightarrow> path list" where
  "glob_star_obs fs folder =
     (case lookup fs folder of
        Some (Dir es) \<Rightarrow>
          concat (map (\<lambda>(d, t). case t of
                         File _ \<Rightarrow> []
                       | Dir sub \<Rightarrow> if map_of sub ''obs-studio'' \<noteq> None
                                    then [folder @ [d, ''obs-studio'']] else []) es)
      | _ \<Rightarrow> [])"

subsection \<open>Settings, the log and the state\<close>

text \<open>A value of the settings cache \<^verbatim>\<open>_shadow_settings\<close>: the host hands over strings and
  booleans.\<close>

datatype sval = SStr string | SBool bool

datatype level = LOG_INFO | LOG_WARNING | LOG_ERROR

text \<open>The state the top-level operations act on: the disk, the lines logged so far, the
  settings cache and the cached list of remote backups \<^verbatim>\<open>g_remote_files\<close>.\<close>

record world =
  disk :: node
  logged :: "(level \<times> string) list"
  shadow :: "string \<Rightarrow> sval option"
  remote_files :: "json list"

definition info :: "string \<Rightarrow> world \<Rightarrow> world" where
  "info msg w = w\<lparr>logged := logged w @ [(LOG_INFO, msg)]\<rparr>"

definition warn :: "string \<Rightarrow> world \<Rightarrow> world" where
  "warn msg w = w\<lparr>logged := logged w @ [(LOG_WARNING, msg)]\<rparr>"

definition err :: "string \<Rightarrow> world \<Rightarrow> world" where
  "err msg w = w\<lparr>logged := logged w @ [(LOG_ERROR, msg)]\<rparr>"

text \<open>\<^verbatim>\<open>str(e)\<close> of an exception: the message the code gave it, or the text of the
  interpreter.\<close>

definition str_exn :: "env \<Rightarrow> exn \<Rightarrow> string" where
  "str_exn e x =
     (case x of
        RuntimeError m \<Rightarrow> m
      | FileNotFoundError m \<Rightarrow> m
      | _ \<Rightarrow> lib_text e x)"

text \<open>\<^verbatim>\<open>g_get_str\<close>, \<^verbatim>\<open>g_get_bool\<close> and \<^verbatim>\<open>g_set\<close>.\<close>

definition g_get_str :: "world \<Rightarrow> string \<Rightarrow> string \<Rightarrow> string" where
  "g_get_str w k dflt =
     (case shadow w k of
        None \<Rightarrow> dflt
      | Some (SStr s) \<Rightarrow> s
      | Some (SBool b) \<Rightarrow> (if b then ''True'' else ''False''))"

definition g_get_bool :: "world \<Rightarrow> string \<Rightarrow> bool \<Rightarrow> bool" where
  "g_get_bool w k dflt =
     (case shadow w k of
        None \<Rightarrow> dflt
      | Some (SStr s) \<Rightarrow> s \<noteq> []
      | Some (SBool b) \<Rightarrow> b)"

definition g_set :: "string \<Rightarrow> sval \<Rightarrow> world \<Rightarrow> world" where
  "g_set k v w = w\<lparr>shadow := (shadow w)(k \<mapsto> v)\<rparr>"

text \<open>\<^verbatim>\<open>now_stamp\<close>, \<^verbatim>\<open>hostname\<close> and \<^verbatim>\<open>make_backup_folder_name\<close>.\<close>

definition now_stamp :: "env \<Rightarrow> string" where
  "now_stamp e = clock e"

definition hostname :: "env \<Rightarrow> string" where
  "hostname e = (if node_name e = [] then ''host'' else node_name e)"

definition make_backup_folder_name :: "env \<Rightarrow> string" where
  "make_backup_folder_name e = ''obs-config-'' @ hostname e @ ''-'' @ now_stamp e"

text \<open>\<^verbatim>\<open>_gh_join\<close>.\<close>

definition gh_join :: "string list \<Rightarrow> string" where
  "gh_join parts =
     join_slash (filter (\<lambda>s. s \<noteq> []) (map strip_slash (filter (\<lambda>p. p \<noteq> []) parts)))"

subsection \<open>Local backup\<close>

text \<open>
  The loop of \<^verbatim>\<open>create_local_backup_folder\<close> over what the walker yields. The walk is taken
  at once, on the disk as it is when the loop starts; the lazy walk of the source sees
  the same unless the backup folder lies inside the configuration root. The disk is
  returned as it is when an exception stops the loop.
\<close>

fun copy_files :: "path \<Rightarrow> (string \<times> path) list \<Rightarrow> node \<Rightarrow> exn option \<times> node" where
  "copy_files target_root [] fs = (None, fs)"
| "copy_files target_root ((rel, src) # rest) fs =
     (let dest = joinpath target_root rel in
      case ensure_parent fs dest of
        Inl x \<Rightarrow> (Some x, fs)
      | Inr fs1 \<Rightarrow>
          (case copy2 fs1 src dest of
             Inl x \<Rightarrow> (Some x, fs1)
           | Inr fs2 \<Rightarrow> copy_files target_root rest fs2))"

text \<open>\<^verbatim>\<open>create_local_backup_folder\<close>: the exception raised or the bundle root, and the disk.\<close>

definition create_local_backup_folder ::
  "env \<Rightarrow> path \<Rightarrow> bool \<Rightarrow> bool \<Rightarrow> node \<Rightarrow> (exn + path) \<times> node" where
  "create_local_backup_folder e base_dir include_logs include_cache fs =
     (case get_obs_config_dir e of
        Inl x \<Rightarrow> (Inl x, fs)
      | Inr cfg \<Rightarrow>
          (case mkdir_p fs base_dir of
             Inl x \<Rightarrow> (Inl x, fs)
           | Inr fs1 \<Rightarrow>
               (let backup_root = joinpath base_dir (make_backup_folder_name e);
                    target_root = joinpath backup_root ''obs-studio''
                in case iter_obs_files e fs1 include_logs include_cache of
                     Inl x \<Rightarrow> (Inl x, fs1)
                   | Inr files \<Rightarrow>
                       (case copy_files target_root files fs1 of
                          (Some x, fs2) \<Rightarrow> (Inl x, fs2)
                        | (None, fs2) \<Rightarrow> (Inr backup_root, fs2)))))"

subsection \<open>Restore\<close>

text \<open>The snapshot taken before a restore: the body that \<^verbatim>\<open>_backup_current_config\<close> and
  \<^verbatim>\<open>_extract_zip_to_config\<close> both run once the configuration root is known to exist. A
  failure of \<^verbatim>\<open>copytree\<close> is logged as a warning.\<close>

definition snapshot_name :: "env \<Rightarrow> string" where
  "snapshot_name e = ''obs-studio.before-restore-'' @ now_stamp e"

definition snapshot_config :: "env \<Rightarrow> path \<Rightarrow> world \<Rightarrow> world" where
  "snapshot_config e cfg w =
     (let backup_dir = joinpath (parent cfg) (snapshot_name e);
          w1 = info (''Backing up current config to '' @ path_text e backup_dir) w;
          fs1 = (if exists (disk w1) backup_dir then rmtree_ignore (disk w1) backup_dir else disk w1)
      in case copytree fs1 cfg backup_dir of
           Inl x \<Rightarrow> warn (''Unable to backup previous state: '' @ str_exn e x) (w1\<lparr>disk := fs1\<rparr>)
         | Inr fs2 \<Rightarrow> w1\<lparr>disk := fs2\<rparr>)"

text \<open>\<^verbatim>\<open>_backup_current_config\<close>.\<close>

definition backup_current_config :: "env \<Rightarrow> world \<Rightarrow> exn option \<times> world" where
  "backup_current_config e w =
     (case get_obs_config_dir e of
        Inl x \<Rightarrow> (Some x, w)
      | Inr cfg \<Rightarrow>
          if \<not> exists (disk w) cfg then (None, w)
          else (None, snapshot_config e cfg w))"

text \<open>The loop of \<^verbatim>\<open>_restore_pairs_to_config\<close>.\<close>

fun write_pairs :: "path \<Rightarrow> (string \<times> bytes) list \<Rightarrow> node \<Rightarrow> exn option \<times> node" where
  "write_pairs cfg [] fs = (None, fs)"
| "write_pairs cfg ((rel, data) # rest) fs =
     (let dest = joinpath cfg rel;
          fs1 = clear_dest fs dest
      in case ensure_parent fs1 dest of
           Inl x \<Rightarrow> (Some x, fs1)
         | Inr fs2 \<Rightarrow>
             (case write_bytes fs2 dest data of
                Inl x \<Rightarrow> (Some x, fs2)
              | Inr fs3 \<Rightarrow> write_pairs cfg rest fs3))"

text \<open>\<^verbatim>\<open>_restore_pairs_to_config\<close>.\<close>

definition restore_pairs_to_config :: "env \<Rightarrow> (string \<times> bytes) list \<Rightarrow> world \<Rightarrow> exn option \<times> world" where
  "restore_pairs_to_config e pairs w =
     (case get_obs_config_dir e of
        Inl x \<Rightarrow> (Some x, w)
      | Inr cfg \<Rightarrow>
          (case mkdir_p (disk w) cfg of
             Inl x \<Rightarrow> (Some x, w)
           | Inr fs1 \<Rightarrow>
               (case backup_current_config e (w\<lparr>disk := fs1\<rparr>) of
                  (Some x, w1) \<Rightarrow> (Some x, w1)
                | (None, w1) \<Rightarrow>
                    (case write_pairs cfg pairs (disk w1) of
                       (r, fs2) \<Rightarrow> (r, w1\<lparr>disk := fs2\<rparr>)))))"

text \<open>The bundle root that \<^verbatim>\<open>_restore_from_folder\<close> settles on.\<close>

definition select_root :: "node \<Rightarrow> path \<Rightarrow> path" where
  "select_root fs folder =
     (if exists fs (folder @ [''obs-studio'']) then folder @ [''obs-studio'']
      else if name_of folder \<noteq> ''obs-studio'' then
        (case glob_star_obs fs folder of [] \<Rightarrow> folder | c # _ \<Rightarrow> c)
      else folder)"

text \<open>\<^verbatim>\<open>_restore_from_folder\<close>.\<close>

definition restore_from_folder :: "env \<Rightarrow> path \<Rightarrow> world \<Rightarrow> exn option \<times> world" where
  "restore_from_folder e folder w =
     (if \<not> exists (disk w) folder \<or> \<not> is_dir (disk w) folder
      then (Some (RuntimeError ''Invalid backup folder.''), w)
      else restore_pairs_to_config e (rglob_files (disk w) (select_root (disk w) folder)) w)"

text \<open>The loop of \<^verbatim>\<open>_extract_zip_to_config\<close> over the entries of the extracted root.\<close>

fun restore_items :: "path \<Rightarrow> (string \<times> node) list \<Rightarrow> node \<Rightarrow> exn option \<times> node" where
  "restore_items cfg [] fs = (None, fs)"
| "restore_items cfg ((name, item) # rest) fs =
     (let dest = joinpath cfg name;
          fs1 = clear_dest fs dest
      in case item of
           Dir es \<Rightarrow>
             (case place_tree fs1 dest es of
                Inl x \<Rightarrow> (Some x, fs1)
              | Inr fs2 \<Rightarrow> restore_items cfg rest fs2)
         | File data \<Rightarrow>
             (case ensure_parent fs1 dest of
                Inl x \<Rightarrow> (Some x, fs1)
              | Inr fs2 \<Rightarrow>
                  (case write_bytes fs2 (if is_dir fs2 dest then dest @ [name] else dest) data of
                     Inl x \<Rightarrow> (Some x, fs2)
                   | Inr fs3 \<Rightarrow> restore_items cfg rest fs3)))"

text \<open>
  \<^verbatim>\<open>_extract_zip_to_config\<close>. \<open>unzip\<close> stands for \<^verbatim>\<open>zipfile.ZipFile(...).extractall\<close>: it
  gives the tree an archive extracts to, or the exception raised. The temporary directory
  is not on the modelled disk.
\<close>

definition extract_zip_to_config ::
  "env \<Rightarrow> (bytes \<Rightarrow> exn + (string \<times> node) list) \<Rightarrow> path \<Rightarrow> world \<Rightarrow> exn option \<times> world" where
  "extract_zip_to_config e unzip zip_file_path w =
     (case get_obs_config_dir e of
        Inl x \<Rightarrow> (Some x, w)
      | Inr cfg \<Rightarrow>
          (case (if \<not> exists (disk w) cfg then mkdir_p (disk w) cfg else Inr (disk w)) of
             Inl x \<Rightarrow> (Some x, w)
           | Inr fs1 \<Rightarrow>
               (let w1 = (if exists fs1 cfg then snapshot_config e cfg (w\<lparr>disk := fs1\<rparr>)
                          else w\<lparr>disk := fs1\<rparr>)
                in case read_bytes (disk w1) zip_file_path of
                     Inl x \<Rightarrow> (Some x, w1)
                   | Inr archive \<Rightarrow>
                       (case unzip archive of
                          Inl x \<Rightarrow> (Some x, w1)
                        | Inr td \<Rightarrow>
                            (let extracted_root =
                                   (case map_of td ''obs-studio'' of None \<Rightarrow> Dir td | Some t \<Rightarrow> t);
                                 w2 = info (''Restoring to '' @ path_text e cfg) w1
                             in case extracted_root of
                                  File _ \<Rightarrow> (Some (OSError ENOTDIR), w2)
                                | Dir items \<Rightarrow>
                                    (case restore_items cfg items (disk w2) of
                                       (r, fs2) \<Rightarrow> (r, w2\<lparr>disk := fs2\<rparr>)))))))"

subsection \<open>The top-level operations\<close>

text \<open>\<^verbatim>\<open>p.suffix.lower()\<close>, on ASCII letters.\<close>

definition lower_char :: "char \<Rightarrow> char" where
  "lower_char c =
     (if 65 \<le> (of_char c :: nat) \<and> (of_char c :: nat) \<le> 90 then char_of ((of_char c :: nat) + 32) else c)"

fun last_dot :: "string \<Rightarrow> nat option" where
  "last_dot [] = None"
| "last_dot (c # cs) =
     (case last_dot cs of
        Some i \<Rightarrow> Some (Suc i)
      | None \<Rightarrow> if c = CHR ''.'' then Some 0 else None)"

definition suffix_of :: "path \<Rightarrow> string" where
  "suffix_of p =
     (case last_dot (name_of p) of
        None \<Rightarrow> []
      | Some i \<Rightarrow> if 0 < i \<and> i < length (name_of p) - 1 then drop i (name_of p) else [])"

text \<open>The body of the \<^verbatim>\<open>try\<close> block of \<^verbatim>\<open>do_backup_now\<close> for a remote destination: the
  upload loop, with the count of files sent.\<close>

fun upload_files ::
  "github \<Rightarrow> string \<Rightarrow> string \<Rightarrow> string \<Rightarrow> (string \<times> path) list \<Rightarrow> nat \<Rightarrow> world
     \<Rightarrow> (exn + nat) \<times> world" where
  "upload_files gh repo branch base_in_repo [] count w = (Inr count, w)"
| "upload_files gh repo branch base_in_repo ((rel, src) # rest) count w =
     (let repo_path = gh_join [base_in_repo, rel] in
      case read_bytes (disk w) src of
        Inl x \<Rightarrow> (Inl x, w)
      | Inr data \<Rightarrow>
          (case put_file gh repo branch repo_path data of
             Inl x \<Rightarrow> (Inl x, w)
           | Inr u \<Rightarrow>
               (let count' = count + 1;
                    w1 = (if count' mod 50 = 0
                          then info (''Uploading... '' @ str_nat count' @ '' files'') w else w)
                in upload_files gh repo branch base_in_repo rest count' w1)))"

definition backup_body :: "env \<Rightarrow> github \<Rightarrow> world \<Rightarrow> exn option \<times> world" where
  "backup_body e gh w =
     (let dest_type = g_get_str w ''dest_type'' ''local'';
          include_logs = g_get_bool w ''include_logs'' False;
          include_cache = g_get_bool w ''include_cache'' False;
          w = g_set ''include_cache'' (SBool include_cache) (g_set ''include_logs'' (SBool include_logs) w)
      in if dest_type = ''local'' then
           (case Path_home e of
              Inl x \<Rightarrow> (Some x, w)
            | Inr h \<Rightarrow>
                (let target_dir = Path (g_get_str w ''local_dir'' (path_text e (h @ [''obs-backups''])));
                     w1 = info (''Creating local backup in '' @ path_text e target_dir) w
                 in case create_local_backup_folder e target_dir include_logs include_cache (disk w1) of
                      (Inl x, fs) \<Rightarrow> (Some x, w1\<lparr>disk := fs\<rparr>)
                    | (Inr backup_root, fs) \<Rightarrow>
                        (None, info (''Backup created: '' @ path_text e backup_root) (w1\<lparr>disk := fs\<rparr>))))
         else
           (let token = g_get_str w ''github_token'' [];
                repo = g_get_str w ''github_repo_select'' [];
                branch = g_get_str w ''github_branch'' ''main'';
                folder = g_get_str w ''github_folder'' ''obs-backups''
            in if token = [] \<or> repo = [] then (Some (RuntimeError ''GitHub token and repo required.''), w)
               else
                 (let backup_name = make_backup_folder_name e;
                      base_in_repo = gh_join [folder, backup_name, ''obs-studio'']
                  in case iter_obs_files e (disk w) include_logs include_cache of
                       Inl x \<Rightarrow> (Some x, w)
                     | Inr files \<Rightarrow>
                         (case upload_files gh repo branch base_in_repo files 0 w of
                            (Inl x, w1) \<Rightarrow> (Some x, w1)
                          | (Inr count, w1) \<Rightarrow>
                              (None, info (''Upload complete. '' @ str_nat count @ '' files to ''
                                             @ repo @ ''/'' @ base_in_repo) w1)))))"

text \<open>\<^verbatim>\<open>do_backup_now\<close>: whatever the body raises is logged, and the result is a boolean.\<close>

definition do_backup_now :: "env \<Rightarrow> github \<Rightarrow> world \<Rightarrow> bool \<times> world" where
  "do_backup_now e gh w =
     (case backup_body e gh w of
        (None, w1) \<Rightarrow> (True, w1)
      | (Some x, w1) \<Rightarrow> (False, err (''Backup failed: '' @ str_exn e x) w1))"

definition restore_local_body ::
  "env \<Rightarrow> (bytes \<Rightarrow> exn + (string \<times> node) list) \<Rightarrow> world \<Rightarrow> exn option \<times> world" where
  "restore_local_body e unzip w =
     (let path = g_get_str w ''restore_local_path'' [] in
      if path = [] then (Some (RuntimeError ''Select a backup folder or a .zip.''), w)
      else
        (let p = Path path in
         if \<not> exists (disk w) p then (Some (RuntimeError ''Path not found.''), w)
         else
           (case (if is_file (disk w) p \<and> map lower_char (suffix_of p) = ''.zip''
                  then extract_zip_to_config e unzip p w
                  else restore_from_folder e p w) of
              (Some x, w1) \<Rightarrow> (Some x, w1)
            | (None, w1) \<Rightarrow> (None, info ''Local restore complete. Restart OBS to fully apply.'' w1))))"

text \<open>\<^verbatim>\<open>do_restore_local\<close>.\<close>

definition do_restore_local ::
  "env \<Rightarrow> (bytes \<Rightarrow> exn + (string \<times> node) list) \<Rightarrow> world \<Rightarrow> bool \<times> world" where
  "do_restore_local e unzip w =
     (case restore_local_body e unzip w of
        (None, w1) \<Rightarrow> (True, w1)
      | (Some x, w1) \<Rightarrow> (False, err (''Local restore failed: '' @ str_exn e x) w1))"

text \<open>The body of \<^verbatim>\<open>do_restore_remote\<close>; a traversal that does not end gives \<open>None\<close>.\<close>

definition restore_remote_body ::
  "env \<Rightarrow> github \<Rightarrow> (json \<Rightarrow> exn + bytes) \<Rightarrow> world \<Rightarrow> (exn option \<times> world) option" where
  "restore_remote_body e gh b64decode w =
     (let token = g_get_str w ''github_token'' [];
          repo = g_get_str w ''github_repo_select'' [];
          branch = g_get_str w ''github_branch'' ''main'';
          sel_path = g_get_str w ''remote_select'' []
      in if token = [] \<or> repo = [] \<or> sel_path = []
         then Some (Some (RuntimeError ''Token, repo, and selection required.''), w)
         else
           (case collect_pairs gh b64decode repo branch (remote_base sel_path) of
              None \<Rightarrow> None
            | Some (Inl x) \<Rightarrow> Some (Some x, w)
            | Some (Inr pairs) \<Rightarrow>
                if pairs = [] then Some (Some (RuntimeError ''No files found in the remote backup.''), w)
                else
                  (case restore_pairs_to_config e pairs w of
                     (Some x, w1) \<Rightarrow> Some (Some x, w1)
                   | (None, w1) \<Rightarrow> Some (None, info ''Remote restore complete. Restart OBS.'' w1))))"

text \<open>\<^verbatim>\<open>do_restore_remote\<close>.\<close>

definition do_restore_remote ::
  "env \<Rightarrow> github \<Rightarrow> (json \<Rightarrow> exn + bytes) \<Rightarrow> world \<Rightarrow> (bool \<times> world) option" where
  "do_restore_remote e gh b64decode w =
     (case restore_remote_body e gh b64decode w of
        None \<Rightarrow> None
      | Some (None, w1) \<Rightarrow> Some (True, w1)
      | Some (Some x, w1) \<Rightarrow> Some (False, err (''Remote restore failed: '' @ str_exn e x) w1))"

text \<open>
  The body of \<^verbatim>\<open>do_refresh_remote\<close>. The property panel \<^verbatim>\<open>g_props\<close> is not modelled.
\<close>

fun dir_items :: "json list \<Rightarrow> exn + json list" where
  "dir_items [] = Inr []"
| "dir_items (it # items) =
     (case py_get it ''type'' JNull of
        Inl x \<Rightarrow> Inl x
      | Inr t \<Rightarrow>
          (case dir_items items of
             Inl x \<Rightarrow> Inl x
           | Inr rest \<Rightarrow> Inr (if t = JStr ''dir'' then it # rest else rest)))"

text \<open>The keys of the sort, \<^verbatim>\<open>x.get("name", "")\<close> of every element in turn.\<close>

fun name_keys :: "json list \<Rightarrow> exn + json list" where
  "name_keys [] = Inr []"
| "name_keys (it # items) =
     (case py_get it ''name'' (JStr []) of
        Inl x \<Rightarrow> Inl x
      | Inr k \<Rightarrow>
          (case name_keys items of
             Inl x \<Rightarrow> Inl x
           | Inr ks \<Rightarrow> Inr (k # ks)))"

definition name_key :: "json \<Rightarrow> json" where
  "name_key it = (case py_get it ''name'' (JStr []) of Inr k \<Rightarrow> k | Inl x \<Rightarrow> JNull)"

text \<open>A key as a string and as a number (a boolean is a number in Python).\<close>

definition str_key :: "json \<Rightarrow> string" where
  "str_key it = (case name_key it of JStr s \<Rightarrow> s | _ \<Rightarrow> [])"

definition num_key :: "json \<Rightarrow> int" where
  "num_key it = (case name_key it of JNum n \<Rightarrow> n | JBool b \<Rightarrow> (if b then 1 else 0) | _ \<Rightarrow> 0)"

definition is_str :: "json \<Rightarrow> bool" where
  "is_str k = (case k of JStr s \<Rightarrow> True | _ \<Rightarrow> False)"

definition is_num :: "json \<Rightarrow> bool" where
  "is_num k = (case k of JNum n \<Rightarrow> True | JBool b \<Rightarrow> True | _ \<Rightarrow> False)"

definition is_arr :: "json \<Rightarrow> bool" where
  "is_arr k = (case k of JArr xs \<Rightarrow> True | _ \<Rightarrow> False)"

text \<open>
  \<^verbatim>\<open>files.sort(key=lambda x: x.get("name", ""), reverse=True)\<close>. The keys are taken
  first, and a list of at most one element is sorted without a comparison. Sorting in
  reverse keeps equal keys in their order: the list is reversed, sorted, and reversed
  again. Strings are compared by code point and numbers by value; a comparison of a
  string with a number, or with \<^verbatim>\<open>None\<close> or a dictionary on either side, raises
  \<^verbatim>\<open>TypeError\<close>, and a sort of two or more keys makes such a comparison if there is one
  to make. Lists compare element by element, and which pairs the sort compares decides
  whether it raises: for keys that are all lists the outcome is the argument
  \<open>sort_lists\<close>, the interpreter's.
\<close>

definition sort_by_name_reverse ::
  "(json list \<Rightarrow> exn + json list) \<Rightarrow> json list \<Rightarrow> exn + json list" where
  "sort_by_name_reverse sort_lists files =
     (case name_keys files of
        Inl x \<Rightarrow> Inl x
      | Inr keys \<Rightarrow>
          if length files \<le> 1 then Inr files
          else if \<forall>k \<in> set keys. is_str k
            then Inr (rev (sort_key str_key (rev files)))
          else if \<forall>k \<in> set keys. is_num k
            then Inr (rev (sort_key num_key (rev files)))
          else if \<forall>k \<in> set keys. is_arr k
            then sort_lists files
          else Inl (TypeError ''not supported between instances''))"

definition refresh_body ::
  "(json list \<Rightarrow> exn + json list) \<Rightarrow> github \<Rightarrow> world \<Rightarrow> exn option \<times> world" where
  "refresh_body sort_lists gh w =
     (let token = g_get_str w ''github_token'' [];
          repo = g_get_str w ''github_repo_select'' [];
          branch = g_get_str w ''github_branch'' ''main'';
          folder = g_get_str w ''github_folder'' ''obs-backups''
      in if token = [] \<or> repo = [] then (Some (RuntimeError ''GitHub token and repo required.''), w)
         else
           (case list_dir gh repo branch folder of
              Inl x \<Rightarrow> (Some x, w)
            | Inr items \<Rightarrow>
                (case dir_items items of
                   Inl x \<Rightarrow> (Some x, w)
                 | Inr files \<Rightarrow>
                     (case sort_by_name_reverse sort_lists files of
                        Inl x \<Rightarrow> (Some x, w)
                      | Inr sorted_files \<Rightarrow>
                          (None, info (''Remote backups (folders): '' @ str_nat (length sorted_files))
                                   (w\<lparr>remote_files := sorted_files\<rparr>))))))"

text \<open>\<^verbatim>\<open>do_refresh_remote\<close>.\<close>

definition do_refresh_remote ::
  "env \<Rightarrow> (json list \<Rightarrow> exn + json list) \<Rightarrow> github \<Rightarrow> world \<Rightarrow> bool \<times> world" where
  "do_refresh_remote e sort_lists gh w =
     (case refresh_body sort_lists gh w of
        (None, w1) \<Rightarrow> (True, w1)
      | (Some x, w1) \<Rightarrow> (False, err (''Refresh failed: '' @ str_exn e x) w1))"
subsection \<open>Sample inputs\<close>

text \<open>A text for each exception of the interpreter.\<close>

fun text_sample :: "exn \<Rightarrow> string" where
  "text_sample (OSError ENOENT) = ''[Errno 2] No such file or directory''"
| "text_sample (OSError EEXIST) = ''[Errno 17] File exists''"
| "text_sample (OSError ENOTDIR) = ''[Errno 20] Not a directory''"
| "text_sample (OSError EISDIR) = ''[Errno 21] Is a directory''"
| "text_sample (RuntimeError m) = m"
| "text_sample (FileNotFoundError m) = m"
| "text_sample (TypeError m) = m"
| "text_sample (AttributeError m) = m"
| "text_sample (ValueError m) = m"
| "text_sample (URLError m) = m"

text \<open>A Linux host without \<^verbatim>\<open>XDG_CONFIG_HOME\<close>, and its configuration root.\<close>

definition env_linux :: env where
  "env_linux = \<lparr> platform = ''linux'', environ = (\<lambda>_. None), home = Some ''/home/u'',
                  node_name = ''studio'', clock = ''20240101-120000'',
                  lib_text = text_sample, path_text = (\<lambda>p. ''/'' @ join_slash p) \<rparr>"

definition cfg_linux :: path where
  "cfg_linux = [''home'', ''u'', ''.config'', ''obs-studio'']"


text \<open>The filesystem that holds nothing but the tree \<open>t\<close> at the path \<open>p\<close>.\<close>

fun at_path :: "path \<Rightarrow> node \<Rightarrow> node" where
  "at_path [] t = t"
| "at_path (c # cs) t = Dir [(c, at_path cs t)]"


text \<open>A configuration root that holds a regular file named like an excluded directory.\<close>

definition fs_named_logs :: node where
  "fs_named_logs = at_path cfg_linux (Dir [(''logs'', File ''notes'')])"


text \<open>A directory named \<^verbatim>\<open>cache\<close> one level below the configuration root.\<close>

definition fs_nested_cache :: node where
  "fs_nested_cache = at_path cfg_linux (Dir
     [(''a'', Dir [(''cache'', Dir [(''f.bin'', File ''f'')]), (''g.ini'', File ''g'')])])"


definition file_item :: "string \<Rightarrow> json" where
  "file_item p = JObj [(''type'', JStr ''file''), (''path'', JStr p)]"

definition dir_item :: "string \<Rightarrow> json" where
  "dir_item p = JObj [(''type'', JStr ''dir''), (''path'', JStr p)]"

definition blob :: "string \<Rightarrow> string \<Rightarrow> json" where
  "blob p s = JObj [(''type'', JStr ''file''), (''path'', JStr p),
                    (''encoding'', JStr ''base64''), (''content'', JStr s)]"

text \<open>A requested path as the service reads it: empty segments are dropped.\<close>

definition norm_path :: "string \<Rightarrow> string" where
  "norm_path p = join_slash (filter (\<lambda>seg. seg \<noteq> []) (split_slash p))"

text \<open>A remote repository with one backup, \<^verbatim>\<open>obs-backups/b1\<close>, of two files; every other
  path answers 404. File contents stand for their own base64 text.\<close>

definition gh_contents_sample :: "string \<Rightarrow> string \<Rightarrow> string \<Rightarrow> fetched" where
  "gh_contents_sample repo path_in_repo ref =
     (let path = norm_path path_in_repo in
      if path = ''obs-backups'' then Body (JArr [dir_item ''obs-backups/b1''])
      else if path = ''obs-backups/b1'' then Body (JArr [dir_item ''obs-backups/b1/obs-studio''])
      else if path = ''obs-backups/b1/obs-studio'' then
        Body (JArr [file_item ''obs-backups/b1/obs-studio/global.ini'',
                    dir_item ''obs-backups/b1/obs-studio/basic''])
      else if path = ''obs-backups/b1/obs-studio/basic'' then
        Body (JArr [file_item ''obs-backups/b1/obs-studio/basic/a.json''])
      else if path = ''obs-backups/b1/obs-studio/global.ini'' then Body (blob path ''g'')
      else if path = ''obs-backups/b1/obs-studio/basic/a.json'' then Body (blob path ''{}'')
      else if path = ''forbidden'' then HTTPError 403 ''Forbidden''
      else HTTPError 404 ''Not Found'')"

definition gh_sample :: github where
  "gh_sample = \<lparr> contents = gh_contents_sample,
                 user_repos = (\<lambda>page. if page = 1 then Body (JArr [JObj [(''full_name'', JStr ''u/r'')]])
                                       else HTTPError 500 ''boom''),
                 put_contents = (\<lambda>repo path ref data. Body JNull) \<rparr>"

definition b64_plain :: "json \<Rightarrow> exn + bytes" where
  "b64_plain j = (case j of JStr s \<Rightarrow> Inr s | _ \<Rightarrow> Inl (TypeError ''argument should be a bytes-like object''))"

text \<open>A state with nothing logged and nothing cached.\<close>

definition world_of :: "node \<Rightarrow> (string \<Rightarrow> sval option) \<Rightarrow> world" where
  "world_of fs settings = \<lparr> disk = fs, logged = [], shadow = settings, remote_files = [] \<rparr>"

text \<open>The same host a day later.\<close>

definition env_later :: env where
  "env_later = env_linux\<lparr> clock := ''20240102-090000'' \<rparr>"

definition home_u :: path where
  "home_u = [''home'', ''u'']"

text \<open>A home directory with a configuration root and a folder of loose files that has no
  \<^verbatim>\<open>obs-studio\<close> in it, is not named so and has no subfolder holding one.\<close>

definition fs_loose :: node where
  "fs_loose = at_path home_u (Dir
     [(''.config'', Dir [(''obs-studio'', Dir [(''global.ini'', File ''g'')])]),
      (''stuff'', Dir [(''notes.txt'', File ''n''), (''sub'', Dir [(''deep.txt'', File ''d'')])])])"

text \<open>A home directory with a bundle one level down and no configuration root.\<close>

definition fs_fresh :: node where
  "fs_fresh = at_path home_u (Dir
     [(''dl'', Dir [(''bk'', Dir [(''obs-studio'', Dir [(''global.ini'', File ''g'')])])])])"

definition no_settings :: "string \<Rightarrow> sval option" where
  "no_settings = (\<lambda>_. None)"

definition settings_local :: "string \<Rightarrow> sval option" where
  "settings_local =
     [''dest_type'' \<mapsto> SStr ''local'', ''local_dir'' \<mapsto> SStr ''/home/u/backups'',
      ''restore_local_path'' \<mapsto> SStr ''/home/u/missing'']"

definition unzip_none :: "bytes \<Rightarrow> exn + (string \<times> node) list" where
  "unzip_none archive = Inl (ValueError ''File is not a zip file'')"


text \<open>A service that shows one directory in every listing, and the settings of a remote
  restore.\<close>

definition gh_loop :: github where
  "gh_loop = \<lparr> contents = (\<lambda>repo path ref. Body (JArr [dir_item ''again''])),
               user_repos = (\<lambda>page. Body (JArr [])),
               put_contents = (\<lambda>repo path ref data. Body JNull) \<rparr>"

definition settings_remote :: "string \<Rightarrow> sval option" where
  "settings_remote =
     [''github_token'' \<mapsto> SStr ''t'', ''github_repo_select'' \<mapsto> SStr ''u/r'',
      ''remote_select'' \<mapsto> SStr ''obs-backups/b1'']"

text \<open>How many levels of directories the sample repository has below a path.\<close>

definition depth_sample :: "json \<Rightarrow> nat" where
  "depth_sample j =
     (case path_arg j of
        Inl x \<Rightarrow> 0
      | Inr s \<Rightarrow>
          (if norm_path s = ''obs-backups'' then 3
           else if norm_path s = ''obs-backups/b1'' then 2
           else if norm_path s = ''obs-backups/b1/obs-studio'' then 1
           else 0))"
subsection \<open>Notions used to state the properties\<close>

text \<open>The walker enters each directory of the chain \<open>ds\<close> below \<open>root\<close>: none of them is
  pruned where it is listed.\<close>

fun entered :: "string set \<Rightarrow> path \<Rightarrow> path \<Rightarrow> bool" where
  "entered excludes root [] = True"
| "entered excludes root (d # ds) = (\<not> dir_pruned excludes root d \<and> entered excludes (root @ [d]) ds)"




text \<open>What stands at a path: nothing, a regular file with its content, or a directory.
  Two trees with the same answers at every path differ in the order of listings only.\<close>

datatype kind = KFile bytes | KDir

definition kind_at :: "node \<Rightarrow> path \<Rightarrow> kind option" where
  "kind_at t q = (case lookup t q of None \<Rightarrow> None | Some (File d) \<Rightarrow> Some (KFile d) | Some (Dir es) \<Rightarrow> Some KDir)"

text \<open>A name that a path component can be, and a tree whose directories list valid,
  distinct names.\<close>

definition valid_name :: "string \<Rightarrow> bool" where
  "valid_name n = (n \<noteq> [] \<and> n \<noteq> ''.'' \<and> CHR ''/'' \<notin> set n)"

fun wf_node :: "node \<Rightarrow> bool" where
  "wf_node (File b) = True"
| "wf_node (Dir es) = (distinct (map fst es) \<and> (\<forall>(n, t) \<in> set es. valid_name n \<and> wf_node t))"


text \<open>The result \<open>r\<close> of a top-level operation is failure, and the last line logged is the
  error line that starts with \<open>what\<close> and ends with the text of the exception \<open>x\<close>.\<close>

definition failed_with :: "string \<Rightarrow> env \<Rightarrow> exn \<Rightarrow> bool \<times> world \<Rightarrow> bool" where
  "failed_with what e x r =
     (\<not> fst r \<and> logged (snd r) \<noteq> [] \<and> last (logged (snd r)) = (LOG_ERROR, what @ str_exn e x))"

text \<open>The pairs \<open>(p, j)\<close> where listing the path \<open>j\<close> shows a directory whose \<^verbatim>\<open>path\<close> is \<open>p\<close>:
  what the traversal of a remote restore pushes when it pops \<open>j\<close>. The relation is
  well-founded when no chain of directories, each listed under the one before, goes on
  for ever.\<close>

definition lists_dir :: "github \<Rightarrow> string \<Rightarrow> string \<Rightarrow> (json \<times> json) set" where
  "lists_dir gh repo branch =
     {(p, j). \<exists>path items it.
        path_arg j = Inr path \<and> list_dir gh repo branch path = Inr items \<and> it \<in> set items
        \<and> py_get it ''type'' JNull = Inr (JStr ''dir'') \<and> py_get it ''path'' JNull = Inr p}"

text \<open>Started with \<open>ps\<close> on top of any stack, the traversal raises or comes back to that
  stack.\<close>

definition ends :: "github \<Rightarrow> (json \<Rightarrow> exn + bytes) \<Rightarrow> string \<Rightarrow> string \<Rightarrow> string \<Rightarrow> json list \<Rightarrow> bool" where
  "ends gh b64decode repo branch base ps =
     (\<forall>stack pairs.
        (\<exists>x. collect_pairs_from gh b64decode repo branch base (stack @ ps) pairs = Some (Inl x))
      \<or> (\<exists>pairs'. collect_pairs_from gh b64decode repo branch base (stack @ ps) pairs
                   = collect_pairs_from gh b64decode repo branch base stack pairs'))"
section \<open>Properties of the walker\<close>

lemma in_walk_files:
  "(\<exists>x \<in> set es. (rel, p) \<in> set (case x of (f, t) \<Rightarrow> (case t of
        File _ \<Rightarrow> if file_skipped f then [] else [(as_posix (root @ [f]), cfg @ root @ [f])]
      | Dir _ \<Rightarrow> [])))
   \<longleftrightarrow> (\<exists>f b. (f, File b) \<in> set es \<and> \<not> file_skipped f
              \<and> rel = as_posix (root @ [f]) \<and> p = cfg @ root @ [f])"
  by (force split: node.splits if_splits)

lemma in_walk_dirs:
  "(\<exists>x \<in> set es. (rel, p) \<in> set (case x of (d, t) \<Rightarrow> (case t of
        File _ \<Rightarrow> []
      | Dir _ \<Rightarrow> if dir_pruned excludes root d then []
                 else walk excludes cfg (root @ [d]) t)))
   \<longleftrightarrow> (\<exists>d sub. (d, Dir sub) \<in> set es \<and> \<not> dir_pruned excludes root d
              \<and> (rel, p) \<in> set (walk excludes cfg (root @ [d]) (Dir sub)))"
  (is "?X \<longleftrightarrow> ?B")
proof
  assume ?X
  then obtain d t where h: "(d, t) \<in> set es" "(rel, p) \<in> set (case t of
                    File _ \<Rightarrow> []
                  | Dir _ \<Rightarrow> if dir_pruned excludes root d then []
                             else walk excludes cfg (root @ [d]) t)"
    by auto
  show ?B
  proof (cases t)
    case (File b)
    with h show ?thesis by simp
  next
    case (Dir sub)
    with h have "\<not> dir_pruned excludes root d" "(rel, p) \<in> set (walk excludes cfg (root @ [d]) (Dir sub))"
      by (simp_all split: if_splits)
    with h(1) Dir show ?thesis by blast
  qed
next
  assume ?B
  then obtain d sub where h: "(d, Dir sub) \<in> set es" "\<not> dir_pruned excludes root d"
            "(rel, p) \<in> set (walk excludes cfg (root @ [d]) (Dir sub))" by blast
  from h(2,3) have "(rel, p) \<in> set (case (d, Dir sub) of (d, t) \<Rightarrow> (case t of
                    File _ \<Rightarrow> []
                  | Dir _ \<Rightarrow> if dir_pruned excludes root d then []
                             else walk excludes cfg (root @ [d]) t))"
    by simp
  with h(1) show ?X by (rule rev_bexI)
qed

lemma in_walk_Dir:
  "(rel, p) \<in> set (walk excludes cfg root (Dir es)) \<longleftrightarrow>
     (\<exists>f b. (f, File b) \<in> set es \<and> \<not> file_skipped f
            \<and> rel = as_posix (root @ [f]) \<and> p = cfg @ root @ [f])
   \<or> (\<exists>d sub. (d, Dir sub) \<in> set es \<and> \<not> dir_pruned excludes root d
            \<and> (rel, p) \<in> set (walk excludes cfg (root @ [d]) (Dir sub)))"
  unfolding in_walk_files[symmetric] in_walk_dirs[symmetric]
  by (simp only: walk.simps set_append set_concat set_map Un_iff UN_iff bex_simps image_iff)

lemma walk_entered:
  "(rel, p) \<in> set (walk excludes cfg root t) \<Longrightarrow>
     \<exists>ds f. rel = as_posix (root @ ds @ [f]) \<and> p = cfg @ root @ ds @ [f]
            \<and> entered excludes root ds \<and> \<not> file_skipped f"
proof (induction excludes cfg root t arbitrary: rel p rule: walk.induct)
  case (1 excludes cfg root uu)
  then show ?case by (simp add: walk.simps)
next
  case (2 excludes cfg root es)
  from "2.prems" consider
    (regular) f b where "(f, File b) \<in> set es" "\<not> file_skipped f"
       "rel = as_posix (root @ [f])" "p = cfg @ root @ [f]"
  | (subdir) d sub where "(d, Dir sub) \<in> set es" "\<not> dir_pruned excludes root d"
       "(rel, p) \<in> set (walk excludes cfg (root @ [d]) (Dir sub))"
    using iffD1[OF in_walk_Dir] by blast
  then show ?case
  proof cases
    case regular
    have "rel = as_posix (root @ [] @ [f]) \<and> p = cfg @ root @ [] @ [f]
            \<and> entered excludes root [] \<and> \<not> file_skipped f"
      using regular by simp
    then show ?thesis by blast
  next
    case subdir
    from "2.IH"[OF subdir(1) refl refl subdir(2) subdir(3)]
    obtain ds f where h: "rel = as_posix ((root @ [d]) @ ds @ [f])" "p = cfg @ (root @ [d]) @ ds @ [f]"
      "entered excludes (root @ [d]) ds" "\<not> file_skipped f"
      by blast
    have "rel = as_posix (root @ (d # ds) @ [f]) \<and> p = cfg @ root @ (d # ds) @ [f]
            \<and> entered excludes root (d # ds) \<and> \<not> file_skipped f"
      using h subdir(2) by simp
    then show ?thesis by blast
  qed
qed







lemma entered_names:
  "entered excludes root ds \<Longrightarrow> d \<in> set ds \<Longrightarrow> d \<notin> excludes"
  by (induction ds arbitrary: root) (auto simp: dir_pruned_def dir_excluded_def)

lemma sample_cfg: "get_obs_config_dir env_linux = Inr cfg_linux"
  by code_simp




text \<open>
  Claim C10, as stated: with the default flags no yielded relative path has a component
  named \<^verbatim>\<open>cache\<close>, \<^verbatim>\<open>crashes\<close> or \<^verbatim>\<open>logs\<close>. A regular file of that name in the
  configuration root is yielded, and its only component is its name.
\<close>

theorem walker_component_counterexample:
  "iter_obs_files env_linux fs_named_logs False False = Inr [(''logs'', cfg_linux @ [''logs''])]
   \<and> ''logs'' \<in> set (drop (length cfg_linux) (cfg_linux @ [''logs'']))"
  by code_simp

text \<open>
  Claim C10, amended. The walker prunes a directory whose bare name is an entry of the
  active exclusion set wherever it stands below the configuration root: no directory
  component of a yielded path (a component before the file name) is such an entry, so
  with the default flags none is named \<^verbatim>\<open>cache\<close>, \<^verbatim>\<open>crashes\<close> or \<^verbatim>\<open>logs\<close>.
\<close>

theorem walker_prunes_by_name:
  assumes run: "iter_obs_files e fs include_logs include_cache = Inr out"
    and cfg: "get_obs_config_dir e = Inr cfg"
    and mem: "(rel, p) \<in> set out"
    and comp: "c \<in> set (butlast (drop (length cfg) p))"
  shows "c \<notin> excluded_dirs include_logs include_cache
       \<and> (\<not> include_logs \<and> \<not> include_cache
            \<longrightarrow> c \<noteq> ''cache'' \<and> c \<noteq> ''crashes'' \<and> c \<noteq> ''logs'')"
proof -
  let ?E = "excluded_dirs include_logs include_cache"
  from run cfg obtain t where "out = walk ?E cfg [] t"
    by (auto simp: iter_obs_files_def split: option.splits)
  with mem obtain ds f where h: "p = cfg @ ds @ [f]" "entered ?E [] ds"
    using walk_entered[of rel p ?E cfg "[]" t] by auto
  from h(1) comp have "c \<in> set ds" by simp
  with h(2) have notin: "c \<notin> ?E" by (rule entered_names)
  moreover have "c \<noteq> ''cache'' \<and> c \<noteq> ''crashes'' \<and> c \<noteq> ''logs''"
    if "\<not> include_logs" "\<not> include_cache"
    using notin that by (auto simp: excluded_dirs_def)
  ultimately show ?thesis by blast
qed

theorem walker_prunes_by_name_witness:
  "iter_obs_files env_linux fs_nested_cache False False = Inr [(''a/g.ini'', cfg_linux @ [''a'', ''g.ini''])]
   \<and> ''a'' \<in> set (butlast (drop (length cfg_linux) (cfg_linux @ [''a'', ''g.ini''])))
   \<and> ''a'' \<notin> excluded_dirs False False"
proof -
  have run: "iter_obs_files env_linux fs_nested_cache False False = Inr [(''a/g.ini'', cfg_linux @ [''a'', ''g.ini''])]"
    by code_simp
  have mem: "(''a/g.ini'', cfg_linux @ [''a'', ''g.ini'']) \<in> set [(''a/g.ini'', cfg_linux @ [''a'', ''g.ini''])]"
    by simp
  have comp: "''a'' \<in> set (butlast (drop (length cfg_linux) (cfg_linux @ [''a'', ''g.ini''])))"
    by simp
  from walker_prunes_by_name[OF run sample_cfg mem comp] run comp show ?thesis
    by blast
qed

section \<open>Properties of the locator\<close>




section \<open>Properties of the remote client\<close>

text \<open>
  Claim C7. For every repository, branch and path, \<^verbatim>\<open>list_dir\<close> returns the empty list on
  a 404 and does not raise; a decoded body that is not a list comes back as the list of
  that one value (and a list as it is); any other \<^verbatim>\<open>HTTPError\<close> becomes a
  \<^verbatim>\<open>RuntimeError\<close> that carries the status code and the detail.
\<close>

theorem list_dir_responses:
  "(contents gh repo path (branch_or_main branch) = HTTPError 404 detail
      \<longrightarrow> list_dir gh repo branch path = Inr [])
   \<and> (contents gh repo path (branch_or_main branch) = Body data \<and> (\<forall>xs. data \<noteq> JArr xs)
      \<longrightarrow> list_dir gh repo branch path = Inr [data])
   \<and> (contents gh repo path (branch_or_main branch) = Body (JArr xs)
      \<longrightarrow> list_dir gh repo branch path = Inr xs)
   \<and> (contents gh repo path (branch_or_main branch) = HTTPError code detail \<and> code \<noteq> 404
      \<longrightarrow> list_dir gh repo branch path
            = Inl (RuntimeError (''GitHub list failed: '' @ str_nat code @ '' '' @ detail)))"
  by (cases data) (simp_all add: list_dir_def)

theorem list_dir_responses_witness:
  "list_dir gh_sample ''u/r'' '''' ''missing'' = Inr []
   \<and> list_dir gh_sample ''u/r'' '''' ''obs-backups/b1/obs-studio/global.ini'' = Inr [blob ''obs-backups/b1/obs-studio/global.ini'' ''g'']
   \<and> list_dir gh_sample ''u/r'' '''' ''obs-backups'' = Inr [dir_item ''obs-backups/b1'']
   \<and> list_dir gh_sample ''u/r'' '''' ''forbidden'' = Inl (RuntimeError ''GitHub list failed: 403 Forbidden'')"
proof -
  have a: "contents gh_sample ''u/r'' ''missing'' (branch_or_main '''') = HTTPError 404 ''Not Found''"
    by code_simp
  have b: "contents gh_sample ''u/r'' ''obs-backups/b1/obs-studio/global.ini'' (branch_or_main '''') = Body (blob ''obs-backups/b1/obs-studio/global.ini'' ''g'')"
    "\<forall>xs. blob ''obs-backups/b1/obs-studio/global.ini'' ''g'' \<noteq> JArr xs"
    by (code_simp, simp add: blob_def)
  have c: "contents gh_sample ''u/r'' ''obs-backups'' (branch_or_main '''') = Body (JArr [dir_item ''obs-backups/b1''])"
    by code_simp
  have d: "contents gh_sample ''u/r'' ''forbidden'' (branch_or_main '''') = HTTPError 403 ''Forbidden''"
    "(403::nat) \<noteq> 404" "str_nat 403 = ''403''"
    by code_simp+
  have "list_dir gh_sample ''u/r'' '''' ''missing'' = Inr []"
    using list_dir_responses[of gh_sample "''u/r''" "''missing''" "''''" "''Not Found''"] a by blast
  moreover have "list_dir gh_sample ''u/r'' '''' ''obs-backups/b1/obs-studio/global.ini'' = Inr [blob ''obs-backups/b1/obs-studio/global.ini'' ''g'']"
    using list_dir_responses[of gh_sample "''u/r''" "''obs-backups/b1/obs-studio/global.ini''" "''''" _ "blob ''obs-backups/b1/obs-studio/global.ini'' ''g''"] b by blast
  moreover have "list_dir gh_sample ''u/r'' '''' ''obs-backups'' = Inr [dir_item ''obs-backups/b1'']"
    using list_dir_responses[of gh_sample "''u/r''" "''obs-backups''" "''''" _ _ "[dir_item ''obs-backups/b1'']"] c by blast
  moreover have "list_dir gh_sample ''u/r'' '''' ''forbidden'' = Inl (RuntimeError ''GitHub list failed: 403 Forbidden'')"
    using list_dir_responses[of gh_sample "''u/r''" "''forbidden''" "''''" "''Forbidden''" _ _ 403] d by simp
  ultimately show ?thesis by blast
qed

text \<open>
  Claim C8, as stated: a page that fails after earlier pages succeeded leaves the partial
  list. Here page 1 holds one repository and page 2 answers 500: the call raises.
\<close>

theorem list_user_repos_counterexample:
  "user_repos gh_sample 1 = Body (JArr [JObj [(''full_name'', JStr ''u/r'')]])
   \<and> user_repos gh_sample 2 = HTTPError 500 ''boom''
   \<and> list_user_repos gh_sample = Some (Inl (RuntimeError ''GitHub repo list failed: 500 boom''))"
  by code_simp

lemma list_user_repos_from_error:
  assumes "user_repos gh k = HTTPError code detail"
    and "\<forall>i. page \<le> i \<and> i < k \<longrightarrow>
           (\<exists>data items. user_repos gh i = Body data \<and> truthy data \<and> py_iter data = Inr items)"
    and "page \<le> k"
  shows "list_user_repos_from gh repos page
           = Some (Inl (RuntimeError (''GitHub repo list failed: '' @ str_nat code @ '' '' @ detail)))"
  using assms(2,3)
proof (induction "k - page" arbitrary: page repos)
  case 0
  then have "page = k" by simp
  with assms(1) show ?case
    by (subst list_user_repos_from.simps) simp
next
  case (Suc n)
  then have lt: "page < k" by simp
  with Suc.prems obtain data items where
    d: "user_repos gh page = Body data" "truthy data" "py_iter data = Inr items"
    by blast
  have "list_user_repos_from gh (repos @ items) (page + 1)
           = Some (Inl (RuntimeError (''GitHub repo list failed: '' @ str_nat code @ '' '' @ detail)))"
    using Suc.hyps(1)[of "page + 1"] Suc.hyps(2) Suc.prems lt by simp
  with d show ?case
    by (subst list_user_repos_from.simps) simp
qed

text \<open>
  Claim C8, amended. When the fetch of page \<open>k\<close> fails with an \<^verbatim>\<open>HTTPError\<close> after the
  pages before it were fetched and added, \<^verbatim>\<open>list_user_repos\<close> terminates by raising
  \<^verbatim>\<open>RuntimeError\<close> with the status code and detail: the repositories gathered so far
  are dropped and no partial list is returned.
\<close>

theorem list_user_repos_page_failure:
  assumes "user_repos gh k = HTTPError code detail"
    and "\<forall>i. 1 \<le> i \<and> i < k \<longrightarrow>
           (\<exists>data items. user_repos gh i = Body data \<and> truthy data \<and> py_iter data = Inr items)"
    and "1 \<le> k"
  shows "list_user_repos gh
           = Some (Inl (RuntimeError (''GitHub repo list failed: '' @ str_nat code @ '' '' @ detail)))"
  unfolding list_user_repos_def using assms by (rule list_user_repos_from_error)

theorem list_user_repos_page_failure_witness:
  "user_repos gh_sample 2 = HTTPError 500 ''boom''
   \<and> user_repos gh_sample 1 = Body (JArr [JObj [(''full_name'', JStr ''u/r'')]])
   \<and> list_user_repos gh_sample
        = Some (Inl (RuntimeError (''GitHub repo list failed: '' @ str_nat 500 @ '' '' @ ''boom'')))"
proof -
  have a: "user_repos gh_sample 2 = HTTPError 500 ''boom''" by code_simp
  have b: "user_repos gh_sample 1 = Body (JArr [JObj [(''full_name'', JStr ''u/r'')]])" by code_simp
  have c: "\<forall>i. 1 \<le> i \<and> i < (2::nat) \<longrightarrow>
           (\<exists>data items. user_repos gh_sample i = Body data \<and> truthy data \<and> py_iter data = Inr items)"
  proof (intro allI impI)
    fix i :: nat assume "1 \<le> i \<and> i < 2"
    then have "i = 1" by simp
    with b show "\<exists>data items. user_repos gh_sample i = Body data \<and> truthy data \<and> py_iter data = Inr items"
      by simp
  qed
  from list_user_repos_page_failure[OF a c] a b show ?thesis by simp
qed

section \<open>Relative paths of a remote restore\<close>





lemma path_arg_JStr: "path_arg (JStr s) = Inr s"
  by (simp add: path_arg_def)






section \<open>Properties of the top-level operations\<close>

lemma failed_with_err: "failed_with what e x (b, err m w) = (\<not> b \<and> m = what @ str_exn e x)"
  by (auto simp: failed_with_def err_def)

lemma g_get_str_g_set: "k \<noteq> k' \<Longrightarrow> g_get_str (g_set k' v w) k d = g_get_str w k d"
  by (simp add: g_get_str_def g_set_def)

lemma disk_g_set: "disk (g_set k v w) = disk w"
  by (simp add: g_set_def)

lemma disk_info: "disk (info m w) = disk w"
  by (simp add: info_def)

lemma upload_files_ok:
  "\<forall>(r, s) \<in> set files. \<exists>d. read_bytes (disk w) s = Inr d
        \<and> put_file gh repo branch (gh_join [base, r]) d = Inr ()
   \<Longrightarrow> \<exists>w'. upload_files gh repo branch base files n w = (Inr (n + length files), w')"
proof (induction files arbitrary: n w)
  case Nil
  then show ?case by simp
next
  case (Cons f files)
  obtain rel src where f: "f = (rel, src)" by (cases f)
  from Cons.prems f obtain d where d: "read_bytes (disk w) src = Inr d"
    "put_file gh repo branch (gh_join [base, rel]) d = Inr ()" by auto
  let ?w1 = "if (n + 1) mod 50 = 0 then info (''Uploading... '' @ str_nat (n + 1) @ '' files'') w else w"
  have "disk ?w1 = disk w" by (simp add: disk_info)
  with Cons.prems have "\<forall>(r, s) \<in> set files. \<exists>d. read_bytes (disk ?w1) s = Inr d
        \<and> put_file gh repo branch (gh_join [base, r]) d = Inr ()" by simp
  from Cons.IH[OF this, of "n + 1"] obtain w' where
    "upload_files gh repo branch base files (n + 1) ?w1 = (Inr (n + 1 + length files), w')" by blast
  with d f show ?case by (cases "(n + 1) mod 50 = 0") (simp_all add: Let_def)
qed

lemma upload_files_fail:
  assumes "\<forall>(r, s) \<in> set pre. \<exists>d. read_bytes (disk w) s = Inr d
        \<and> put_file gh repo branch (gh_join [base, r]) d = Inr ()"
    and "read_bytes (disk w) src = Inl x
         \<or> (\<exists>d. read_bytes (disk w) src = Inr d \<and> put_file gh repo branch (gh_join [base, rel]) d = Inl x)"
  shows "\<exists>w'. upload_files gh repo branch base (pre @ (rel, src) # post) n w = (Inl x, w')"
  using assms
proof (induction pre arbitrary: n w)
  case Nil
  then show ?case by (auto simp: Let_def)
next
  case (Cons f pre)
  obtain r s where f: "f = (r, s)" by (cases f)
  from Cons.prems(1) f obtain d where d: "read_bytes (disk w) s = Inr d"
    "put_file gh repo branch (gh_join [base, r]) d = Inr ()" by auto
  let ?w1 = "if (n + 1) mod 50 = 0 then info (''Uploading... '' @ str_nat (n + 1) @ '' files'') w else w"
  have dw: "disk ?w1 = disk w" by (simp add: disk_info)
  from Cons.prems dw have a: "\<forall>(r, s) \<in> set pre. \<exists>d. read_bytes (disk ?w1) s = Inr d
        \<and> put_file gh repo branch (gh_join [base, r]) d = Inr ()" by simp
  from Cons.prems(2) dw have b: "read_bytes (disk ?w1) src = Inl x
         \<or> (\<exists>d. read_bytes (disk ?w1) src = Inr d \<and> put_file gh repo branch (gh_join [base, rel]) d = Inl x)"
    by simp
  from Cons.IH[OF a b, of "n + 1"] obtain w' where
    "upload_files gh repo branch base (pre @ (rel, src) # post) (n + 1) ?w1 = (Inl x, w')" by blast
  with d f show ?case by (cases "(n + 1) mod 50 = 0") (simp_all add: Let_def)
qed

lemma backup_remote_outcomes:
  assumes dest: "g_get_str w ''dest_type'' ''local'' \<noteq> ''local''"
  shows "g_get_str w ''github_token'' [] = [] \<or> g_get_str w ''github_repo_select'' [] = [] \<longrightarrow>
           failed_with ''Backup failed: '' e (RuntimeError ''GitHub token and repo required.'')
             (do_backup_now e gh w)"
    and "g_get_str w ''github_token'' [] \<noteq> [] \<and> g_get_str w ''github_repo_select'' [] \<noteq> []
         \<and> iter_obs_files e (disk w) (g_get_bool w ''include_logs'' False) (g_get_bool w ''include_cache'' False) = Inl x
         \<longrightarrow> failed_with ''Backup failed: '' e x (do_backup_now e gh w)"
    and "g_get_str w ''github_token'' [] \<noteq> [] \<and> g_get_str w ''github_repo_select'' [] \<noteq> []
         \<and> iter_obs_files e (disk w) (g_get_bool w ''include_logs'' False) (g_get_bool w ''include_cache'' False)
              = Inr (pre @ (rel, src) # post)
         \<and> (\<forall>(r, s) \<in> set pre. \<exists>d. read_bytes (disk w) s = Inr d
               \<and> put_file gh (g_get_str w ''github_repo_select'' []) (g_get_str w ''github_branch'' ''main'')
                    (gh_join [gh_join [g_get_str w ''github_folder'' ''obs-backups'',
                                       make_backup_folder_name e, ''obs-studio''], r]) d = Inr ())
         \<and> (read_bytes (disk w) src = Inl x
              \<or> (\<exists>d. read_bytes (disk w) src = Inr d
                   \<and> put_file gh (g_get_str w ''github_repo_select'' []) (g_get_str w ''github_branch'' ''main'')
                        (gh_join [gh_join [g_get_str w ''github_folder'' ''obs-backups'',
                                           make_backup_folder_name e, ''obs-studio''], rel]) d = Inl x))
         \<longrightarrow> failed_with ''Backup failed: '' e x (do_backup_now e gh w)"
    and "g_get_str w ''github_token'' [] \<noteq> [] \<and> g_get_str w ''github_repo_select'' [] \<noteq> []
         \<and> iter_obs_files e (disk w) (g_get_bool w ''include_logs'' False) (g_get_bool w ''include_cache'' False)
              = Inr files
         \<and> (\<forall>(r, s) \<in> set files. \<exists>d. read_bytes (disk w) s = Inr d
               \<and> put_file gh (g_get_str w ''github_repo_select'' []) (g_get_str w ''github_branch'' ''main'')
                    (gh_join [gh_join [g_get_str w ''github_folder'' ''obs-backups'',
                                       make_backup_folder_name e, ''obs-studio''], r]) d = Inr ())
         \<longrightarrow> fst (do_backup_now e gh w)"
proof -
  let ?w0 = "g_set ''include_cache'' (SBool (g_get_bool w ''include_cache'' False))
               (g_set ''include_logs'' (SBool (g_get_bool w ''include_logs'' False)) w)"
  let ?repo = "g_get_str w ''github_repo_select'' []"
  let ?branch = "g_get_str w ''github_branch'' ''main''"
  let ?base = "gh_join [g_get_str w ''github_folder'' ''obs-backups'', make_backup_folder_name e, ''obs-studio'']"
  have d0: "disk ?w0 = disk w" by (simp add: disk_g_set)
  show "g_get_str w ''github_token'' [] = [] \<or> g_get_str w ''github_repo_select'' [] = [] \<longrightarrow>
           failed_with ''Backup failed: '' e (RuntimeError ''GitHub token and repo required.'')
             (do_backup_now e gh w)"
    using dest
    by (auto simp: do_backup_now_def backup_body_def Let_def g_get_str_g_set failed_with_err)
  show "g_get_str w ''github_token'' [] \<noteq> [] \<and> g_get_str w ''github_repo_select'' [] \<noteq> []
         \<and> iter_obs_files e (disk w) (g_get_bool w ''include_logs'' False) (g_get_bool w ''include_cache'' False) = Inl x
         \<longrightarrow> failed_with ''Backup failed: '' e x (do_backup_now e gh w)"
    using dest
    by (auto simp: do_backup_now_def backup_body_def Let_def g_get_str_g_set disk_g_set failed_with_err)
  show "g_get_str w ''github_token'' [] \<noteq> [] \<and> g_get_str w ''github_repo_select'' [] \<noteq> []
         \<and> iter_obs_files e (disk w) (g_get_bool w ''include_logs'' False) (g_get_bool w ''include_cache'' False)
              = Inr (pre @ (rel, src) # post)
         \<and> (\<forall>(r, s) \<in> set pre. \<exists>d. read_bytes (disk w) s = Inr d
               \<and> put_file gh ?repo ?branch (gh_join [?base, r]) d = Inr ())
         \<and> (read_bytes (disk w) src = Inl x
              \<or> (\<exists>d. read_bytes (disk w) src = Inr d
                   \<and> put_file gh ?repo ?branch (gh_join [?base, rel]) d = Inl x))
         \<longrightarrow> failed_with ''Backup failed: '' e x (do_backup_now e gh w)"
  proof (intro impI, elim conjE)
    assume t: "g_get_str w ''github_token'' [] \<noteq> []" "g_get_str w ''github_repo_select'' [] \<noteq> []"
      and it: "iter_obs_files e (disk w) (g_get_bool w ''include_logs'' False) (g_get_bool w ''include_cache'' False)
              = Inr (pre @ (rel, src) # post)"
      and pre: "\<forall>(r, s) \<in> set pre. \<exists>d. read_bytes (disk w) s = Inr d
               \<and> put_file gh ?repo ?branch (gh_join [?base, r]) d = Inr ()"
      and bad: "read_bytes (disk w) src = Inl x
              \<or> (\<exists>d. read_bytes (disk w) src = Inr d
                   \<and> put_file gh ?repo ?branch (gh_join [?base, rel]) d = Inl x)"
    from upload_files_fail[of pre ?w0 gh ?repo ?branch ?base src x rel post 0] pre bad d0
    obtain w' where "upload_files gh ?repo ?branch ?base (pre @ (rel, src) # post) 0 ?w0 = (Inl x, w')"
      by auto
    with dest t it show "failed_with ''Backup failed: '' e x (do_backup_now e gh w)"
      by (simp add: do_backup_now_def backup_body_def Let_def g_get_str_g_set disk_g_set failed_with_err)
  qed
  show "g_get_str w ''github_token'' [] \<noteq> [] \<and> g_get_str w ''github_repo_select'' [] \<noteq> []
         \<and> iter_obs_files e (disk w) (g_get_bool w ''include_logs'' False) (g_get_bool w ''include_cache'' False)
              = Inr files
         \<and> (\<forall>(r, s) \<in> set files. \<exists>d. read_bytes (disk w) s = Inr d
               \<and> put_file gh ?repo ?branch (gh_join [?base, r]) d = Inr ())
         \<longrightarrow> fst (do_backup_now e gh w)"
  proof (intro impI, elim conjE)
    assume t: "g_get_str w ''github_token'' [] \<noteq> []" "g_get_str w ''github_repo_select'' [] \<noteq> []"
      and it: "iter_obs_files e (disk w) (g_get_bool w ''include_logs'' False) (g_get_bool w ''include_cache'' False)
              = Inr files"
      and ok: "\<forall>(r, s) \<in> set files. \<exists>d. read_bytes (disk w) s = Inr d
               \<and> put_file gh ?repo ?branch (gh_join [?base, r]) d = Inr ()"
    from upload_files_ok[of files ?w0 gh ?repo ?branch ?base 0] ok d0
    obtain w' where "upload_files gh ?repo ?branch ?base files 0 ?w0 = (Inr (0 + length files), w')"
      by auto
    with dest t it show "fst (do_backup_now e gh w)"
      by (simp add: do_backup_now_def backup_body_def Let_def g_get_str_g_set disk_g_set)
  qed
qed

lemma collect_pairs_root_failure:
  "list_dir gh repo branch base = Inl x \<Longrightarrow> collect_pairs gh b64decode repo branch base = Some (Inl x)"
  by (simp add: collect_pairs_def collect_pairs_from.simps path_arg_JStr)

lemma collect_items_pushes:
  "collect_items gh b64decode repo branch base items stack pairs = Inr (stack', pairs')
   \<Longrightarrow> \<exists>ps. stack' = stack @ ps
        \<and> (\<forall>p \<in> set ps. \<exists>it \<in> set items.
              py_get it ''type'' JNull = Inr (JStr ''dir'') \<and> py_get it ''path'' JNull = Inr p)"
proof (induction items arbitrary: stack pairs)
  case Nil
  then show ?case by simp
next
  case (Cons it items)
  from Cons.prems obtain t where t: "py_get it ''type'' JNull = Inr t"
    by (auto split: sum.splits)
  consider (d) "t = JStr ''dir''" | (f) "t = JStr ''file''" | (o) "t \<noteq> JStr ''dir''" "t \<noteq> JStr ''file''"
    by blast
  then show ?case
  proof cases
    case d
    with t Cons.prems obtain p where p: "py_get it ''path'' JNull = Inr p"
      and rest: "collect_items gh b64decode repo branch base items (stack @ [p]) pairs = Inr (stack', pairs')"
      by (auto split: sum.splits)
    from Cons.IH[OF rest] obtain ps where ps: "stack' = (stack @ [p]) @ ps"
      "\<forall>q \<in> set ps. \<exists>it \<in> set items.
              py_get it ''type'' JNull = Inr (JStr ''dir'') \<and> py_get it ''path'' JNull = Inr q"
      by blast
    have "stack' = stack @ (p # ps)" using ps(1) by simp
    moreover have "\<forall>q \<in> set (p # ps). \<exists>i \<in> set (it # items).
              py_get i ''type'' JNull = Inr (JStr ''dir'') \<and> py_get i ''path'' JNull = Inr q"
      using ps(2) p t d by auto
    ultimately show ?thesis by blast
  next
    case o
    with t Cons.prems have
      "collect_items gh b64decode repo branch base items stack pairs = Inr (stack', pairs')"
      by simp
    from Cons.IH[OF this] show ?thesis by auto
  next
    case f
    from f t Cons.prems obtain pr where
      "collect_items gh b64decode repo branch base items stack (pairs @ [pr]) = Inr (stack', pairs')"
      by (auto split: sum.splits)
    from Cons.IH[OF this] show ?thesis by auto
  qed
qed

lemma ends_all:
  "(\<forall>p \<in> set ps. ends gh b64decode repo branch base [p]) \<Longrightarrow> ends gh b64decode repo branch base ps"
proof (induction ps rule: rev_induct)
  case Nil
  then show ?case by (auto simp: ends_def)
next
  case (snoc p qs)
  from snoc.prems have p: "ends gh b64decode repo branch base [p]" by simp
  from snoc have qs: "ends gh b64decode repo branch base qs" by simp
  show ?case
    unfolding ends_def
  proof (intro allI)
    fix stack pairs
    from p[unfolded ends_def, rule_format, of "stack @ qs" pairs]
    consider (err) x where "collect_pairs_from gh b64decode repo branch base ((stack @ qs) @ [p]) pairs = Some (Inl x)"
      | (go) pairs' where "collect_pairs_from gh b64decode repo branch base ((stack @ qs) @ [p]) pairs
                   = collect_pairs_from gh b64decode repo branch base (stack @ qs) pairs'"
      by blast
    then show "(\<exists>x. collect_pairs_from gh b64decode repo branch base (stack @ qs @ [p]) pairs = Some (Inl x))
      \<or> (\<exists>pairs'. collect_pairs_from gh b64decode repo branch base (stack @ qs @ [p]) pairs
                   = collect_pairs_from gh b64decode repo branch base stack pairs')"
    proof cases
      case err
      then show ?thesis by auto
    next
      case go
      with qs[unfolded ends_def, rule_format, of stack pairs'] show ?thesis by auto
    qed
  qed
qed

lemma ends_one:
  assumes wf: "wf (lists_dir gh repo branch)"
  shows "ends gh b64decode repo branch base [j]"
  using wf
proof (induction j rule: wf_induct_rule)
  case (less j)
  show ?case
    unfolding ends_def
  proof (intro allI)
    fix stack pairs
    let ?F = "collect_pairs_from gh b64decode repo branch base"
    show "(\<exists>x. ?F (stack @ [j]) pairs = Some (Inl x)) \<or> (\<exists>pairs'. ?F (stack @ [j]) pairs = ?F stack pairs')"
    proof (cases "path_arg j")
      case (Inl x)
      then show ?thesis by (subst collect_pairs_from.simps) simp
    next
      case (Inr path)
      note path = this
      show ?thesis
      proof (cases "list_dir gh repo branch path")
        case (Inl x)
        with path show ?thesis by (subst collect_pairs_from.simps) simp
      next
        case (Inr items)
        note items = this
        show ?thesis
        proof (cases "collect_items gh b64decode repo branch base items stack pairs")
          case (Inl x)
          with path items show ?thesis by (subst collect_pairs_from.simps) simp
        next
          case (Inr sp)
          obtain stack' pairs' where sp: "sp = (stack', pairs')" by (cases sp)
          from Inr sp have ci: "collect_items gh b64decode repo branch base items stack pairs = Inr (stack', pairs')"
            by simp
          from collect_items_pushes[OF ci] obtain ps where ps: "stack' = stack @ ps"
            "\<forall>p \<in> set ps. \<exists>it \<in> set items.
              py_get it ''type'' JNull = Inr (JStr ''dir'') \<and> py_get it ''path'' JNull = Inr p"
            by blast
          have "\<forall>p \<in> set ps. (p, j) \<in> lists_dir gh repo branch"
            using ps(2) path items unfolding lists_dir_def by blast
          then have "\<forall>p \<in> set ps. ends gh b64decode repo branch base [p]"
            using less by blast
          from ends_all[OF this] have e: "ends gh b64decode repo branch base ps" .
          have step: "?F (stack @ [j]) pairs = ?F (stack @ ps) pairs'"
            using path items ci ps(1) by (subst collect_pairs_from.simps) simp
          from e[unfolded ends_def, rule_format, of stack pairs'] step show ?thesis by auto
        qed
      qed
    qed
  qed
qed

lemma collect_pairs_from_returns:
  assumes wf: "wf (lists_dir gh repo branch)"
  shows "\<exists>res. collect_pairs_from gh b64decode repo branch base stack pairs = Some res"
proof -
  have "ends gh b64decode repo branch base stack"
    using ends_one[OF wf] by (intro ends_all) blast
  from this[unfolded ends_def, rule_format, of "[]" pairs]
  show ?thesis by (auto simp: collect_pairs_from.simps[of _ _ _ _ _ "[]"])
qed

lemma collect_pairs_returns:
  "wf (lists_dir gh repo branch) \<Longrightarrow> \<exists>res. collect_pairs gh b64decode repo branch base = Some res"
  unfolding collect_pairs_def by (rule collect_pairs_from_returns)

lemma restore_remote_returns:
  assumes "wf (lists_dir gh (g_get_str w ''github_repo_select'' []) (g_get_str w ''github_branch'' ''main''))"
  shows "\<exists>b w'. do_restore_remote e gh b64decode w = Some (b, w')"
proof -
  from collect_pairs_returns[OF assms] obtain res where
    "collect_pairs gh b64decode (g_get_str w ''github_repo_select'' []) (g_get_str w ''github_branch'' ''main'')
       (remote_base (g_get_str w ''remote_select'' [])) = Some res" by blast
  then show ?thesis
    by (auto simp: do_restore_remote_def restore_remote_body_def Let_def split: sum.splits option.splits prod.splits)
qed

lemma loop_never_returns:
  assumes run: "collect_pairs_from gh b64decode repo branch base stack pairs = Some res"
  shows "gh = gh_loop \<longrightarrow> stack \<noteq> [] \<longrightarrow> (\<forall>j \<in> set stack. \<exists>s. j = JStr s) \<longrightarrow> False"
proof (rule collect_pairs_from.raw_induct[where
    P = "\<lambda>gh b64decode repo branch base stack pairs res.
      gh = gh_loop \<longrightarrow> stack \<noteq> [] \<longrightarrow> (\<forall>j \<in> set stack. \<exists>s. j = JStr s) \<longrightarrow> False",
    OF _ run])
  fix rec gh b64decode repo branch base stack pairs res
  assume IH: "\<And>gh b64decode repo branch base stack pairs res.
      rec gh b64decode repo branch base stack pairs = Some res \<Longrightarrow>
      gh = gh_loop \<longrightarrow> stack \<noteq> [] \<longrightarrow> (\<forall>j \<in> set stack. \<exists>s. j = JStr s) \<longrightarrow> False"
    and eq: "(if stack = [] then Some (Inr pairs)
      else case path_arg (last stack) of Inl x \<Rightarrow> Some (Inl x)
           | Inr path \<Rightarrow>
               (case list_dir gh repo branch path of Inl x \<Rightarrow> Some (Inl x)
               | Inr items \<Rightarrow>
                   (case collect_items gh b64decode repo branch base items (butlast stack) pairs of
                      Inl x \<Rightarrow> Some (Inl x)
                    | Inr (stack', pairs') \<Rightarrow> rec gh b64decode repo branch base stack' pairs'))) = Some res"
  show "gh = gh_loop \<longrightarrow> stack \<noteq> [] \<longrightarrow> (\<forall>j \<in> set stack. \<exists>s. j = JStr s) \<longrightarrow> False"
  proof (intro impI)
    assume g: "gh = gh_loop" and ne: "stack \<noteq> []" and str: "\<forall>j \<in> set stack. \<exists>s. j = JStr s"
    from ne str obtain s where s: "last stack = JStr s" by (meson last_in_set)
    have l: "list_dir gh repo branch s = Inr [dir_item ''again'']"
      by (simp add: g list_dir_def gh_loop_def)
    have ci: "collect_items gh b64decode repo branch base [dir_item ''again''] (butlast stack) pairs
                = Inr (butlast stack @ [JStr ''again''], pairs)"
      by (simp add: dir_item_def)
    from eq ne s l ci have "rec gh b64decode repo branch base (butlast stack @ [JStr ''again'']) pairs = Some res"
      by (simp add: path_arg_JStr)
    from IH[OF this] g str show False by (auto dest: in_set_butlastD)
  qed
qed

lemma sample_remote_wf: "wf (lists_dir gh_sample repo branch)"
proof (rule wf_subset[OF wf_measure[of depth_sample]])
  have n: "norm_path ''obs-backups/b1'' = ''obs-backups/b1''"
    "norm_path ''obs-backups/b1/obs-studio'' = ''obs-backups/b1/obs-studio''"
    "norm_path ''obs-backups/b1/obs-studio/basic'' = ''obs-backups/b1/obs-studio/basic''"
    by code_simp+
  show "lists_dir gh_sample repo branch \<subseteq> measure depth_sample"
  proof
    fix pj assume pj: "pj \<in> lists_dir gh_sample repo branch"
    obtain p j where [simp]: "pj = (p, j)" by (cases pj)
    from pj obtain path items it where h: "path_arg j = Inr path"
      "list_dir gh_sample repo branch path = Inr items" "it \<in> set items"
      "py_get it ''type'' JNull = Inr (JStr ''dir'')" "py_get it ''path'' JNull = Inr p"
      by (auto simp: lists_dir_def)
    from h(2,3,4,5) have
      "(norm_path path = ''obs-backups'' \<and> p = JStr ''obs-backups/b1'')
       \<or> (norm_path path = ''obs-backups/b1'' \<and> p = JStr ''obs-backups/b1/obs-studio'')
       \<or> (norm_path path = ''obs-backups/b1/obs-studio'' \<and> p = JStr ''obs-backups/b1/obs-studio/basic'')"
      by (auto simp: list_dir_def gh_sample_def gh_contents_sample_def Let_def file_item_def dir_item_def
            blob_def split: if_splits)
    with h(1) n show "pj \<in> measure depth_sample"
      by (auto simp: depth_sample_def path_arg_JStr)
  qed
qed

text \<open>
  Claim C3, as stated: every top-level operation returns a boolean. \<^verbatim>\<open>do_restore_remote\<close>
  walks the remote tree with a loop that ends when no listed directory is left; against
  a service that shows a directory in every listing it keeps listing and never returns.
\<close>

theorem remote_restore_counterexample:
  "do_restore_remote env_linux gh_loop b64_plain (world_of (Dir []) settings_remote) = None"
proof -
  have "collect_pairs gh_loop b64_plain ''u/r'' ''main'' (remote_base ''obs-backups/b1'') = None"
  proof (cases "collect_pairs gh_loop b64_plain ''u/r'' ''main'' (remote_base ''obs-backups/b1'')")
    case (Some res)
    from loop_never_returns[OF Some[unfolded collect_pairs_def]] show ?thesis by simp
  qed simp
  moreover have "g_get_str (world_of (Dir []) settings_remote) ''github_token'' [] = ''t''"
    "g_get_str (world_of (Dir []) settings_remote) ''github_repo_select'' [] = ''u/r''"
    "g_get_str (world_of (Dir []) settings_remote) ''github_branch'' ''main'' = ''main''"
    "g_get_str (world_of (Dir []) settings_remote) ''remote_select'' [] = ''obs-backups/b1''"
    by (simp_all add: g_get_str_def world_of_def settings_remote_def)
  ultimately show ?thesis
    by (simp add: do_restore_remote_def restore_remote_body_def Let_def)
qed

text \<open>
  Claim C3, amended. No top-level operation lets an exception through: whichever inner
  step fails, the result is \<open>False\<close> and the last line logged is the error line with the
  text of that exception, and when every step succeeds the result is \<open>True\<close>. For
  \<^verbatim>\<open>do_backup_now\<close> to a local folder the steps are \<^verbatim>\<open>Path.home()\<close>, the locator, the
  creation of the target folder, the walker and the copy loop; to a remote folder the
  check of the settings, the walker, and the read and the upload of each file in turn.
  For \<^verbatim>\<open>do_restore_local\<close> they are the two checks of the path and the restore from the
  archive or from the folder; for \<^verbatim>\<open>do_refresh_remote\<close> the check of the settings, the
  listing, the filter and the sort; for \<^verbatim>\<open>do_restore_remote\<close> the check of the settings,
  the traversal (the first listing, for one) and the restore of the pairs.
  \<^verbatim>\<open>do_backup_now\<close>, \<^verbatim>\<open>do_restore_local\<close> and \<^verbatim>\<open>do_refresh_remote\<close> always return;
  \<^verbatim>\<open>do_restore_remote\<close> returns when its traversal does, and it does whenever the
  directories listed under one another do not go on for ever.
\<close>

theorem orchestrators_never_raise:
  fixes e :: env and gh :: github and w :: world
  defines "il \<equiv> g_get_bool w ''include_logs'' False"
    and "ic \<equiv> g_get_bool w ''include_cache'' False"
    and "token \<equiv> g_get_str w ''github_token'' []"
    and "repo \<equiv> g_get_str w ''github_repo_select'' []"
    and "branch \<equiv> g_get_str w ''github_branch'' ''main''"
    and "folder \<equiv> g_get_str w ''github_folder'' ''obs-backups''"
    and "base_in_repo \<equiv> gh_join [g_get_str w ''github_folder'' ''obs-backups'', make_backup_folder_name e, ''obs-studio'']"
    and "sel_path \<equiv> g_get_str w ''remote_select'' []"
    and "path \<equiv> g_get_str w ''restore_local_path'' []"
  shows
   "(g_get_str w ''dest_type'' ''local'' = ''local'' \<longrightarrow>
       (home e = None \<longrightarrow>
          failed_with ''Backup failed: '' e (RuntimeError ''Could not determine home directory.'')
            (do_backup_now e gh w))
     \<and> (home e = Some h \<and> target_dir = Path (g_get_str w ''local_dir'' (path_text e (Path h @ [''obs-backups'']))) \<longrightarrow>
          (get_obs_config_dir e = Inl x \<longrightarrow> failed_with ''Backup failed: '' e x (do_backup_now e gh w))
        \<and> (get_obs_config_dir e = Inr cfg \<and> mkdir_p (disk w) target_dir = Inl x \<longrightarrow>
              failed_with ''Backup failed: '' e x (do_backup_now e gh w))
        \<and> (get_obs_config_dir e = Inr cfg \<and> mkdir_p (disk w) target_dir = Inr fs1
            \<and> iter_obs_files e fs1 il ic = Inl x \<longrightarrow>
              failed_with ''Backup failed: '' e x (do_backup_now e gh w))
        \<and> (get_obs_config_dir e = Inr cfg \<and> mkdir_p (disk w) target_dir = Inr fs1
            \<and> iter_obs_files e fs1 il ic = Inr files
            \<and> copy_files (joinpath (joinpath target_dir (make_backup_folder_name e)) ''obs-studio'') files fs1
                 = (Some x, fs2) \<longrightarrow>
              failed_with ''Backup failed: '' e x (do_backup_now e gh w))
        \<and> (get_obs_config_dir e = Inr cfg \<and> mkdir_p (disk w) target_dir = Inr fs1
            \<and> iter_obs_files e fs1 il ic = Inr files
            \<and> copy_files (joinpath (joinpath target_dir (make_backup_folder_name e)) ''obs-studio'') files fs1
                 = (None, fs2) \<longrightarrow>
              fst (do_backup_now e gh w) \<and> disk (snd (do_backup_now e gh w)) = fs2)))
  \<and> (g_get_str w ''dest_type'' ''local'' \<noteq> ''local'' \<longrightarrow>
       (token = [] \<or> repo = [] \<longrightarrow>
          failed_with ''Backup failed: '' e (RuntimeError ''GitHub token and repo required.'')
            (do_backup_now e gh w))
     \<and> (token \<noteq> [] \<and> repo \<noteq> [] \<and> iter_obs_files e (disk w) il ic = Inl x \<longrightarrow>
          failed_with ''Backup failed: '' e x (do_backup_now e gh w))
     \<and> (token \<noteq> [] \<and> repo \<noteq> [] \<and> iter_obs_files e (disk w) il ic = Inr (pre @ (rel, src) # post)
         \<and> (\<forall>(r, s) \<in> set pre. \<exists>d. read_bytes (disk w) s = Inr d
               \<and> put_file gh repo branch (gh_join [base_in_repo, r]) d = Inr ())
         \<and> (read_bytes (disk w) src = Inl x
              \<or> (\<exists>d. read_bytes (disk w) src = Inr d
                    \<and> put_file gh repo branch (gh_join [base_in_repo, rel]) d = Inl x)) \<longrightarrow>
          failed_with ''Backup failed: '' e x (do_backup_now e gh w))
     \<and> (token \<noteq> [] \<and> repo \<noteq> [] \<and> iter_obs_files e (disk w) il ic = Inr files
         \<and> (\<forall>(r, s) \<in> set files. \<exists>d. read_bytes (disk w) s = Inr d
               \<and> put_file gh repo branch (gh_join [base_in_repo, r]) d = Inr ()) \<longrightarrow>
          fst (do_backup_now e gh w)))
  \<and> ((path = [] \<longrightarrow>
         failed_with ''Local restore failed: '' e (RuntimeError ''Select a backup folder or a .zip.'')
           (do_restore_local e unzip w))
     \<and> (path \<noteq> [] \<and> \<not> exists (disk w) (Path path) \<longrightarrow>
         failed_with ''Local restore failed: '' e (RuntimeError ''Path not found.'')
           (do_restore_local e unzip w))
     \<and> (path \<noteq> [] \<and> p = Path path \<and> exists (disk w) p
         \<and> is_file (disk w) p \<and> map lower_char (suffix_of p) = ''.zip'' \<longrightarrow>
           (extract_zip_to_config e unzip p w = (Some x, w1) \<longrightarrow>
              failed_with ''Local restore failed: '' e x (do_restore_local e unzip w))
         \<and> (extract_zip_to_config e unzip p w = (None, w1) \<longrightarrow> fst (do_restore_local e unzip w)))
     \<and> (path \<noteq> [] \<and> p = Path path \<and> exists (disk w) p
         \<and> \<not> (is_file (disk w) p \<and> map lower_char (suffix_of p) = ''.zip'') \<longrightarrow>
           (restore_from_folder e p w = (Some x, w1) \<longrightarrow>
              failed_with ''Local restore failed: '' e x (do_restore_local e unzip w))
         \<and> (restore_from_folder e p w = (None, w1) \<longrightarrow> fst (do_restore_local e unzip w))))
  \<and> ((token = [] \<or> repo = [] \<longrightarrow>
         failed_with ''Refresh failed: '' e (RuntimeError ''GitHub token and repo required.'')
           (do_refresh_remote e sort_lists gh w))
     \<and> (token \<noteq> [] \<and> repo \<noteq> [] \<and> list_dir gh repo branch folder = Inl x \<longrightarrow>
         failed_with ''Refresh failed: '' e x (do_refresh_remote e sort_lists gh w))
     \<and> (token \<noteq> [] \<and> repo \<noteq> [] \<and> list_dir gh repo branch folder = Inr items
         \<and> dir_items items = Inl x \<longrightarrow>
         failed_with ''Refresh failed: '' e x (do_refresh_remote e sort_lists gh w))
     \<and> (token \<noteq> [] \<and> repo \<noteq> [] \<and> list_dir gh repo branch folder = Inr items
         \<and> dir_items items = Inr dirs \<and> sort_by_name_reverse sort_lists dirs = Inl x \<longrightarrow>
         failed_with ''Refresh failed: '' e x (do_refresh_remote e sort_lists gh w))
     \<and> (token \<noteq> [] \<and> repo \<noteq> [] \<and> list_dir gh repo branch folder = Inr items
         \<and> dir_items items = Inr dirs \<and> sort_by_name_reverse sort_lists dirs = Inr sorted_dirs \<longrightarrow>
         fst (do_refresh_remote e sort_lists gh w)
         \<and> remote_files (snd (do_refresh_remote e sort_lists gh w)) = sorted_dirs))
  \<and> ((token = [] \<or> repo = [] \<or> sel_path = [] \<longrightarrow>
         (\<exists>r. do_restore_remote e gh b64decode w = Some r
             \<and> failed_with ''Remote restore failed: '' e
                   (RuntimeError ''Token, repo, and selection required.'') r))
     \<and> (token \<noteq> [] \<and> repo \<noteq> [] \<and> sel_path \<noteq> [] \<longrightarrow>
         (list_dir gh repo branch (remote_base sel_path) = Inl x \<longrightarrow>
            (\<exists>r. do_restore_remote e gh b64decode w = Some r
                \<and> failed_with ''Remote restore failed: '' e x r))
       \<and> (collect_pairs gh b64decode repo branch (remote_base sel_path) = Some (Inl x) \<longrightarrow>
            (\<exists>r. do_restore_remote e gh b64decode w = Some r
                \<and> failed_with ''Remote restore failed: '' e x r))
       \<and> (collect_pairs gh b64decode repo branch (remote_base sel_path) = Some (Inr []) \<longrightarrow>
            (\<exists>r. do_restore_remote e gh b64decode w = Some r
                \<and> failed_with ''Remote restore failed: '' e
                      (RuntimeError ''No files found in the remote backup.'') r))
       \<and> (collect_pairs gh b64decode repo branch (remote_base sel_path) = Some (Inr pairs) \<and> pairs \<noteq> []
           \<and> restore_pairs_to_config e pairs w = (Some x, w1) \<longrightarrow>
            (\<exists>r. do_restore_remote e gh b64decode w = Some r
                \<and> failed_with ''Remote restore failed: '' e x r))
       \<and> (collect_pairs gh b64decode repo branch (remote_base sel_path) = Some (Inr pairs) \<and> pairs \<noteq> []
           \<and> restore_pairs_to_config e pairs w = (None, w1) \<longrightarrow>
            (\<exists>w'. do_restore_remote e gh b64decode w = Some (True, w')))
       \<and> (collect_pairs gh b64decode repo branch (remote_base sel_path) = None \<longrightarrow>
            do_restore_remote e gh b64decode w = None))
     \<and> (wf (lists_dir gh repo branch) \<longrightarrow> (\<exists>b w'. do_restore_remote e gh b64decode w = Some (b, w'))))"
  (is "?BL \<and> ?BR \<and> ?RL \<and> ?RF \<and> ?RR")
proof -
  have bl: ?BL
    unfolding il_def ic_def
    by (auto simp: do_backup_now_def backup_body_def Let_def Path_home_def create_local_backup_folder_def
          g_get_str_g_set disk_g_set disk_info failed_with_err)
  have br: ?BR
    unfolding il_def ic_def token_def repo_def branch_def base_in_repo_def
    apply (intro impI conjI)
       apply (rule backup_remote_outcomes(1)[rule_format]; assumption)
      apply (rule backup_remote_outcomes(2)[rule_format]; assumption)
     apply (rule backup_remote_outcomes(3)[rule_format]; assumption)
    apply (rule backup_remote_outcomes(4)[rule_format]; assumption)
    done
  have rl: ?RL
    unfolding path_def
    by (auto simp: do_restore_local_def restore_local_body_def Let_def failed_with_err)
  have rf: ?RF
    unfolding token_def repo_def branch_def folder_def
    by (auto simp: do_refresh_remote_def refresh_body_def Let_def failed_with_err info_def)
  have rr1: "collect_pairs gh b64decode repo branch (remote_base sel_path) = Some (Inl x)"
    if "list_dir gh repo branch (remote_base sel_path) = Inl x"
    using that by (rule collect_pairs_root_failure)
  have rr: ?RR
    using rr1 restore_remote_returns[of gh w e b64decode]
    unfolding token_def repo_def branch_def sel_path_def
    by (auto simp: do_restore_remote_def restore_remote_body_def Let_def failed_with_err)
  show ?thesis by (rule conjI[OF bl conjI[OF br conjI[OF rl conjI[OF rf rr]]]])
qed

theorem orchestrators_never_raise_witness:
  "g_get_str (world_of (Dir []) no_settings) ''dest_type'' ''local'' = ''local''
   \<and> home env_linux = Some ''/home/u''
   \<and> get_obs_config_dir env_linux = Inr cfg_linux
   \<and> mkdir_p (disk (world_of (Dir []) no_settings)) [''home'', ''u'', ''obs-backups'']
        = Inr (at_path [''home'', ''u'', ''obs-backups''] (Dir []))
   \<and> iter_obs_files env_linux (at_path [''home'', ''u'', ''obs-backups''] (Dir [])) False False
        = Inl (FileNotFoundError ''OBS config not found at /home/u/.config/obs-studio'')
   \<and> failed_with ''Backup failed: '' env_linux
        (FileNotFoundError ''OBS config not found at /home/u/.config/obs-studio'')
        (do_backup_now env_linux gh_sample (world_of (Dir []) no_settings))
   \<and> g_get_str (world_of (Dir []) no_settings) ''github_token'' [] = []
   \<and> failed_with ''Refresh failed: '' env_linux (RuntimeError ''GitHub token and repo required.'')
        (do_refresh_remote env_linux Inr gh_sample (world_of (Dir []) no_settings))
   \<and> wf (lists_dir gh_sample ''u/r'' ''main'')
   \<and> (\<exists>b w'. do_restore_remote env_linux gh_sample b64_plain (world_of (Dir []) settings_remote)
                = Some (b, w'))"
proof -
  let ?w = "world_of (Dir []) no_settings"
  let ?x = "FileNotFoundError ''OBS config not found at /home/u/.config/obs-studio''"
  let ?fs1 = "at_path [''home'', ''u'', ''obs-backups''] (Dir [])"
  have dest: "g_get_str ?w ''dest_type'' ''local'' = ''local''" by code_simp
  have hm: "home env_linux = Some ''/home/u''" by code_simp
  have tgt: "[''home'', ''u'', ''obs-backups'']
               = Path (g_get_str ?w ''local_dir'' (path_text env_linux (Path ''/home/u'' @ [''obs-backups''])))"
    by code_simp
  have mk: "mkdir_p (disk ?w) [''home'', ''u'', ''obs-backups''] = Inr ?fs1" by code_simp
  have it: "iter_obs_files env_linux ?fs1 (g_get_bool ?w ''include_logs'' False)
              (g_get_bool ?w ''include_cache'' False) = Inl ?x"
    by code_simp
  have it': "iter_obs_files env_linux ?fs1 False False = Inl ?x" by code_simp
  have tok: "g_get_str ?w ''github_token'' [] = []" by code_simp
  have a: "failed_with ''Backup failed: '' env_linux ?x (do_backup_now env_linux gh_sample ?w)"
    using orchestrators_never_raise[where e = env_linux and gh = gh_sample and w = ?w
        and h = "''/home/u''" and target_dir = "[''home'', ''u'', ''obs-backups'']" and x = ?x
        and cfg = cfg_linux and ?fs1.0 = ?fs1, THEN conjunct1]
      dest hm tgt sample_cfg mk it
    by blast
  have b: "failed_with ''Refresh failed: '' env_linux (RuntimeError ''GitHub token and repo required.'')
        (do_refresh_remote env_linux Inr gh_sample ?w)"
    using orchestrators_never_raise[where e = env_linux and gh = gh_sample and w = ?w
        and sort_lists = Inr, THEN conjunct2, THEN conjunct2, THEN conjunct2, THEN conjunct1]
      tok
    by blast
  have repo: "g_get_str (world_of (Dir []) settings_remote) ''github_repo_select'' [] = ''u/r''"
    "g_get_str (world_of (Dir []) settings_remote) ''github_branch'' ''main'' = ''main''"
    by code_simp+
  have c: "\<exists>b w'. do_restore_remote env_linux gh_sample b64_plain (world_of (Dir []) settings_remote)
                = Some (b, w')"
    using orchestrators_never_raise[where e = env_linux and gh = gh_sample
        and w = "world_of (Dir []) settings_remote" and b64decode = b64_plain,
        THEN conjunct2, THEN conjunct2, THEN conjunct2, THEN conjunct2, THEN conjunct2, THEN conjunct2]
      sample_remote_wf[of "''u/r''" "''main''"] repo
    by simp
  from dest hm sample_cfg mk it' a tok b c sample_remote_wf[of "''u/r''" "''main''"]
  show ?thesis by (intro conjI)
qed
section \<open>Effects of the filesystem operations\<close>

lemma kind_at_Nil: "kind_at t [] = (case t of File d \<Rightarrow> Some (KFile d) | Dir es \<Rightarrow> Some KDir)"
  by (simp add: kind_at_def)

lemma kind_at_File_Cons: "kind_at (File b) (c # cs) = None"
  by (simp add: kind_at_def)

lemma kind_at_Dir_Cons:
  "kind_at (Dir es) (c # cs) = (case map_of es c of None \<Rightarrow> None | Some t \<Rightarrow> kind_at t cs)"
  by (simp add: kind_at_def split: option.splits)

lemma kind_at_Dir_Nil: "kind_at (Dir es) [] = Some KDir"
  by (simp add: kind_at_def)

lemma map_of_update_entry:
  "map_of (update_entry c x es) k = (if k = c then Some x else map_of es k)"
  by (induction es) auto

lemma map_of_filter_neq:
  "map_of (filter (\<lambda>(k, v). k \<noteq> c) es) k = (if k = c then None else map_of es k)"
  by (induction es) auto

lemma kind_mkdir_p:
  "mkdir_p t p = Inr t' \<Longrightarrow> kind_at t' q = (if prefix q p then Some KDir else kind_at t q)"
proof (induction p arbitrary: t t' q)
  case Nil
  then show ?case by (cases t) (auto simp: kind_at_Dir_Nil)
next
  case (Cons c cs)
  from Cons.prems obtain es where t: "t = Dir es" by (cases t) auto
  define sub where "sub = (case map_of es c of None \<Rightarrow> Dir [] | Some s \<Rightarrow> s)"
  from Cons.prems t obtain s' where s': "mkdir_p sub cs = Inr s'" and t': "t' = Dir (update_entry c s' es)"
    by (auto simp: sub_def split: option.splits sum.splits)
  show ?case
  proof (cases q)
    case Nil
    then show ?thesis by (simp add: t' kind_at_Dir_Nil)
  next
    case (Cons k ks)
    show ?thesis
    proof (cases "k = c")
      case True
      have "kind_at s' ks = (if prefix ks cs then Some KDir else kind_at sub ks)"
        using Cons.IH[OF s'] .
      moreover have "kind_at t (c # ks) = (if ks = [] \<and> map_of es c = None then None else kind_at sub ks)"
        by (cases ks) (auto simp: t kind_at_Dir_Cons sub_def kind_at_Dir_Nil split: option.splits)
      ultimately show ?thesis
        using True Cons by (auto simp: t' kind_at_Dir_Cons map_of_update_entry)
    next
      case False
      then show ?thesis using Cons by (simp add: t t' kind_at_Dir_Cons map_of_update_entry)
    qed
  qed
qed

lemma mkdir_p_ok:
  "(\<And>a d. prefix a p \<Longrightarrow> kind_at t a \<noteq> Some (KFile d)) \<Longrightarrow> \<exists>t'. mkdir_p t p = Inr t'"
proof (induction p arbitrary: t)
  case Nil
  from Nil[of "[]"] show ?case by (cases t) (auto simp: kind_at_Nil)
next
  case (Cons c cs)
  from Cons.prems[of "[]"] obtain es where t: "t = Dir es" by (cases t) (auto simp: kind_at_Nil)
  define sub where "sub = (case map_of es c of None \<Rightarrow> Dir [] | Some s \<Rightarrow> s)"
  have "kind_at sub a \<noteq> Some (KFile d)" if "prefix a cs" for a d
  proof (cases "map_of es c")
    case None
    then show ?thesis by (cases a) (simp_all add: sub_def kind_at_Dir_Nil kind_at_Dir_Cons)
  next
    case (Some s)
    with Cons.prems[of "c # a" d] that show ?thesis
      by (simp add: t sub_def kind_at_Dir_Cons)
  qed
  from Cons.IH[OF this] obtain s' where "mkdir_p sub cs = Inr s'" by blast
  then show ?case by (auto simp: t sub_def split: option.splits)
qed

lemma kind_put:
  "put t p new = Some t' \<Longrightarrow> p \<noteq> [] \<Longrightarrow>
     kind_at t' q = (if prefix p q then kind_at new (drop (length p) q) else kind_at t q)"
proof (induction p arbitrary: t t' q)
  case Nil
  then show ?case by simp
next
  case (Cons c cs)
  from Cons.prems obtain es where t: "t = Dir es" by (cases t) auto
  show ?case
  proof (cases "cs = []")
    case True
    with Cons.prems t have t': "t' = Dir (update_entry c new es)" by simp
    show ?thesis
      by (cases q) (auto simp: t t' True kind_at_Dir_Nil kind_at_Dir_Cons map_of_update_entry kind_at_def)
  next
    case False
    with Cons.prems t obtain sub sub' where
      sub: "map_of es c = Some sub" "put sub cs new = Some sub'" and t': "t' = Dir (update_entry c sub' es)"
      by (auto split: option.splits)
    from Cons.IH[OF sub(2) False]
    have ih: "kind_at sub' ks = (if prefix cs ks then kind_at new (drop (length cs) ks) else kind_at sub ks)" for ks .
    show ?thesis
      by (cases q) (auto simp: t t' kind_at_Dir_Nil kind_at_Dir_Cons map_of_update_entry sub ih)
  qed
qed

lemma put_ok:
  "p \<noteq> [] \<Longrightarrow> kind_at t (butlast p) = Some KDir \<Longrightarrow> \<exists>t'. put t p new = Some t'"
proof (induction p arbitrary: t)
  case Nil
  then show ?case by simp
next
  case (Cons c cs)
  show ?case
  proof (cases "cs = []")
    case True
    with Cons.prems show ?thesis by (cases t) (auto simp: kind_at_Nil)
  next
    case False
    with Cons.prems obtain es where t: "t = Dir es"
      by (cases t) (auto simp: kind_at_File_Cons)
    from False Cons.prems t obtain sub where sub: "map_of es c = Some sub" "kind_at sub (butlast cs) = Some KDir"
      by (auto simp: kind_at_Dir_Cons split: option.splits)
    from Cons.IH[OF False sub(2)] obtain s' where "put sub cs new = Some s'" by blast
    with False t sub show ?thesis by simp
  qed
qed

lemma kind_delete:
  "p \<noteq> [] \<Longrightarrow> kind_at (delete t p) q = (if prefix p q then None else kind_at t q)"
proof (induction p arbitrary: t q)
  case Nil
  then show ?case by simp
next
  case (Cons c cs)
  show ?case
  proof (cases t)
    case (File b)
    then show ?thesis by (cases q) (auto simp: kind_at_File_Cons)
  next
    case (Dir es)
    show ?thesis
    proof (cases "cs = []")
      case True
      then show ?thesis
        by (cases q) (auto simp: Dir kind_at_Dir_Nil kind_at_Dir_Cons map_of_filter_neq)
    next
      case False
      show ?thesis
      proof (cases "map_of es c")
        case None
        then show ?thesis using False
          by (cases q) (auto simp: Dir kind_at_Dir_Nil kind_at_Dir_Cons)
      next
        case (Some sub)
        from Cons.IH[OF False]
        have ih: "kind_at (delete sub cs) ks = (if prefix cs ks then None else kind_at sub ks)" for ks .
        show ?thesis using False Some
          by (cases q) (auto simp: Dir kind_at_Dir_Nil kind_at_Dir_Cons map_of_update_entry ih)
      qed
    qed
  qed
qed

lemma exists_kind: "exists t q \<longleftrightarrow> kind_at t q \<noteq> None"
  by (auto simp: exists_def kind_at_def split: option.splits node.splits)

lemma is_dir_kind: "is_dir t q \<longleftrightarrow> kind_at t q = Some KDir"
  by (auto simp: is_dir_def kind_at_def split: option.splits node.splits)

lemma is_file_kind: "is_file t q \<longleftrightarrow> (\<exists>d. kind_at t q = Some (KFile d))"
  by (auto simp: is_file_def kind_at_def split: option.splits node.splits)

lemma lookup_File_kind: "lookup t q = Some (File d) \<longleftrightarrow> kind_at t q = Some (KFile d)"
  by (auto simp: kind_at_def split: option.splits node.splits)

lemma probe_lookup: "lookup t p = (case probe t p of Inl x \<Rightarrow> None | Inr n \<Rightarrow> Some n)"
  by (induction t p rule: probe.induct) (auto split: option.splits)


end
